theory Spec2Isabelle
  imports Complex_Main "HOL-Library.AList"
begin

section \<open>NeMo to Lhotse manifest conversion (convert\_nemo\_to\_lhotse.py)\<close>

text \<open>
  A shallow embedding of \<^verbatim>\<open>scripts/audio_to_audio/convert_nemo_to_lhotse.py\<close>.
  The script reads one JSON object per manifest line, builds a Lhotse recording and cut
  from it and writes the cut. Python exceptions are values of type \<open>error\<close>; the file
  system (audio headers, numpy headers, path resolution, the manifest's lines) and the
  identifiers \<^verbatim>\<open>uuid4\<close> hands out are the record \<open>env\<close>; a Python dict is an association
  list in insertion order.
\<close>

subsection \<open>Values of a manifest line\<close>

datatype json =
    JNull
  | JBool bool
  | JInt int
  | JFloat rat
  | JStr string
  | JList "json list"
  | JObj "(string \<times> json) list"

type_synonym dict = "(string \<times> json) list"

definition keys :: "dict \<Rightarrow> string set" where
  "keys d = fst ` set d"

text \<open>A dict loaded from JSON holds every key once.\<close>

definition is_dict :: "dict \<Rightarrow> bool" where
  "is_dict d = distinct (map fst d)"

text \<open>\<^verbatim>\<open>k in d\<close>, \<^verbatim>\<open>d[k]\<close> as an option, and the dict left by \<^verbatim>\<open>d.pop(k)\<close>.\<close>

definition dict_get :: "dict \<Rightarrow> string \<Rightarrow> json option" where
  "dict_get d k = map_of d k"

definition dict_in :: "string \<Rightarrow> dict \<Rightarrow> bool" where
  "dict_in k d = (dict_get d k \<noteq> None)"

definition dict_del :: "dict \<Rightarrow> string \<Rightarrow> dict" where
  "dict_del d k = AList.delete k d"

subsection \<open>Errors\<close>

text \<open>
  The three \<^verbatim>\<open>assert\<close> statements of the script, the three of the Lhotse methods it
  calls (\<^verbatim>\<open>truncate\<close>: the offset is not negative, the new duration is positive;
  \<^verbatim>\<open>with_channels\<close>: the channels are channels of the recording), and the exceptions the
  script's own expressions raise. \<open>OSError\<close> stands for the exception of a collaborator
  that cannot read a file.
\<close>

datatype assertion =
    MismatchedSamplingRates
  | SingleChannelSelector string
  | OnlyNumpySupported
  | NegativeOffset
  | NonPositiveDuration
  | ChannelsNotInRecording

datatype error =
    AssertionError assertion
  | KeyError string
  | TypeError
  | ValueError
  | IndexError
  | UnboundLocalError
  | AttributeError
  | ZeroDivisionError
  | OSError

text \<open>The spec's names for the failures (section 7 of the spec), as a classification.\<close>

datatype error_kind = MissingField | SchemaViolation | UnsupportedFormat

fun spec_error_kind :: "error \<Rightarrow> error_kind option" where
  "spec_error_kind (AssertionError MismatchedSamplingRates) = Some SchemaViolation"
| "spec_error_kind (AssertionError (SingleChannelSelector k)) = Some SchemaViolation"
| "spec_error_kind (AssertionError OnlyNumpySupported) = Some UnsupportedFormat"
| "spec_error_kind (KeyError k) = Some MissingField"
| "spec_error_kind e = None"

subsection \<open>The Lhotse data model\<close>

text \<open>
  Modelled from the spec: the classes \<^verbatim>\<open>AudioSource\<close>, \<^verbatim>\<open>Recording\<close>, \<^verbatim>\<open>Array\<close> and the
  cut come from the Lhotse library, which is not under src/. The fields are those the
  script passes to the constructors (lines 65, 71-78, 88) and those of section 3 of
  the spec, held the way the library holds them; the result of \<^verbatim>\<open>lhotse.audio.info\<close>
  has the four attributes the script reads.
\<close>

record audio_info =
  samplerate :: nat
  frames :: nat
  channels :: nat
  info_duration :: rat

record audio_source =
  src_type :: string
  src_channels :: "nat list"
  source :: string

record recording =
  rec_id :: string
  sources :: "audio_source list"
  sampling_rate :: nat
  num_samples :: nat
  rec_duration :: rat
  channel_ids :: "nat list"

record array =
  storage_type :: string
  storage_path :: string
  storage_key :: string
  shape :: "nat list"

text \<open>
  The cut (the spec's Segment): a view of the primary recording from \<open>start\<close> for
  \<open>cut_duration\<close> seconds on the channels \<open>channel\<close>, and the extension map \<open>custom\<close>. A cut
  is made without an extension map (\<open>None\<close>, Python's \<^verbatim>\<open>None\<close>). The library has no
  fields for the target recording, the reference recording and the embedding: assigning
  one of them (lines 109, 121, 133) stores it in the extension map under the attribute's
  name, and makes the map when there is none. So an entry of the map is a value of the
  manifest line, a recording or an array reference.
\<close>

datatype custom_value = CJson json | CRecording recording | CArray array

record cut =
  cut_id :: string
  start :: rat
  cut_duration :: rat
  channel :: "nat list"
  recording :: recording
  custom :: "(string \<times> custom_value) list option"

definition custom_fields :: "cut \<Rightarrow> (string \<times> custom_value) list" where
  "custom_fields c = (case custom c of None \<Rightarrow> [] | Some d \<Rightarrow> d)"

text \<open>\<^verbatim>\<open>cut.name\<close> for a name that is not a field of the cut.\<close>

definition custom_get :: "cut \<Rightarrow> string \<Rightarrow> custom_value option" where
  "custom_get c name = map_of (custom_fields c) name"

text \<open>\<^verbatim>\<open>cut.name = value\<close> for a name that is not a field of the cut.\<close>

definition set_custom_attr :: "cut \<Rightarrow> string \<Rightarrow> custom_value \<Rightarrow> cut" where
  "set_custom_attr c name v = c\<lparr>custom := Some (AList.update name v (custom_fields c))\<rparr>"

definition rec_num_channels :: "recording \<Rightarrow> nat" where
  "rec_num_channels r = length (channel_ids r)"

definition cut_num_channels :: "cut \<Rightarrow> nat" where
  "cut_num_channels c = length (channel c)"

subsection \<open>Command line and environment\<close>

record args =
  input :: string
  output_path :: string
  input_key :: string
  target_key :: string
  reference_key :: string
  embedding_key :: string

text \<open>\<^verbatim>\<open>parse_args\<close> with the two positional arguments only: every key has its default.\<close>

definition parse_args :: "string \<Rightarrow> string \<Rightarrow> args" where
  "parse_args inp outp =
     \<lparr>input = inp, output_path = outp,
      input_key = ''audio_filepath'',
      target_key = ''target_filepath'',
      reference_key = ''reference_filepath'',
      embedding_key = ''embedding_filepath''\<rparr>"

definition INPUT_CHANNEL_SELECTOR :: string where
  "INPUT_CHANNEL_SELECTOR = ''input_channel_selector''"

definition TARGET_CHANNEL_SELECTOR :: string where
  "TARGET_CHANNEL_SELECTOR = ''target_channel_selector''"

definition REFERENCE_CHANNEL_SELECTOR :: string where
  "REFERENCE_CHANNEL_SELECTOR = ''reference_channel_selector''"

definition LHOTSE_TARGET_CHANNEL_SELECTOR :: string where
  "LHOTSE_TARGET_CHANNEL_SELECTOR = ''target_recording_channel_selector''"

definition LHOTSE_REFERENCE_CHANNEL_SELECTOR :: string where
  "LHOTSE_REFERENCE_CHANNEL_SELECTOR = ''reference_recording_channel_selector''"

text \<open>
  What the run reads from outside: \<open>info\<close> is \<^verbatim>\<open>lhotse.audio.info\<close>, \<open>from_file\<close> is
  \<^verbatim>\<open>Recording.from_file\<close>, \<open>np_load_shape\<close> is the shape of \<^verbatim>\<open>np.load(path)\<close>,
  \<open>resolve audio_file manifest_file\<close> is the path \<^verbatim>\<open>get_full_path\<close> gives one file, and
  \<open>load_jsonl\<close> gives the manifest's lines in order. The first three give \<open>None\<close> for a
  file they cannot read, which the script sees as an exception (\<open>OSError\<close> here).
  \<open>uuids\<close> are the identifiers \<^verbatim>\<open>uuid4\<close> will return, in order: \<open>uuid4\<close> reads the first,
  and \<open>drawn\<close> is the environment after one was taken.
\<close>

record env =
  info :: "string \<Rightarrow> audio_info option"
  from_file :: "string \<Rightarrow> recording option"
  np_load_shape :: "string \<Rightarrow> nat list option"
  resolve :: "string \<Rightarrow> string \<Rightarrow> string"
  load_jsonl :: "string \<Rightarrow> dict list"
  uuids :: "nat \<Rightarrow> string"

definition uuid4 :: "env \<Rightarrow> string" where
  "uuid4 ev = uuids ev 0"

definition drawn :: "env \<Rightarrow> env" where
  "drawn ev = ev\<lparr>uuids := (\<lambda>n. uuids ev (Suc n))\<rparr>"

definition and_then :: "error + 'a \<Rightarrow> ('a \<Rightarrow> error + 'b) \<Rightarrow> error + 'b" where
  "and_then m f = (case m of Inl e \<Rightarrow> Inl e | Inr x \<Rightarrow> f x)"

subsection \<open>create\_recording (lines 56-81)\<close>

datatype path_or_paths = Path string | Paths "string list"

text \<open>
  The loop of lines 61-67 with its three variables \<^verbatim>\<open>cur_channel_idx\<close>, \<^verbatim>\<open>sources\<close>,
  \<^verbatim>\<open>infos\<close>; a file that cannot be probed ends it with the prober's error.
\<close>

fun probe_loop ::
  "env \<Rightarrow> string list \<Rightarrow> nat \<times> audio_source list \<times> audio_info list
     \<Rightarrow> error + (nat \<times> audio_source list \<times> audio_info list)" where
  "probe_loop ev [] st = Inr st"
| "probe_loop ev (p # ps) (cur_channel_idx, srcs, infos) =
     (case info ev p of
        None \<Rightarrow> Inl OSError
      | Some i \<Rightarrow>
          probe_loop ev ps
            (cur_channel_idx + channels i,
             srcs @ [\<lparr>src_type = ''file'',
                      src_channels = [cur_channel_idx ..< cur_channel_idx + channels i],
                      source = p\<rparr>],
             infos @ [i]))"

text \<open>
  Line 68-70: \<^verbatim>\<open>all(i.samplerate == infos[0].samplerate for i in infos[1:])\<close>; on an empty
  \<^verbatim>\<open>infos[1:]\<close> nothing is evaluated.
\<close>

definition same_samplerates :: "audio_info list \<Rightarrow> bool" where
  "same_samplerates infos =
     list_all (\<lambda>i. samplerate i = samplerate (infos ! 0)) (drop 1 infos)"

text \<open>
  Line 72, \<^verbatim>\<open>p[0]\<close>: \<^verbatim>\<open>p\<close> is the loop variable after the loop, the last path; it is
  unbound when the list was empty, and indexing an empty string raises.
\<close>

definition loop_var_first_char :: "string list \<Rightarrow> error + string" where
  "loop_var_first_char ps =
     (if ps = [] then Inl UnboundLocalError
      else if last ps = [] then Inl IndexError
      else Inr [hd (last ps)])"

definition create_recording :: "env \<Rightarrow> path_or_paths \<Rightarrow> error + recording" where
  "create_recording ev path_or_paths =
     (case path_or_paths of
        Paths ps \<Rightarrow>
          (case probe_loop ev ps (0, [], []) of
             Inl e \<Rightarrow> Inl e
           | Inr (cur_channel_idx, srcs, infos) \<Rightarrow>
               if \<not> same_samplerates infos
               then Inl (AssertionError MismatchedSamplingRates)
               else
                 (case loop_var_first_char ps of
                    Inl e \<Rightarrow> Inl e
                  | Inr c \<Rightarrow>
                      Inr \<lparr>rec_id = c,
                           sources = srcs,
                           sampling_rate = samplerate (infos ! 0),
                           num_samples = frames (infos ! 0),
                           rec_duration = info_duration (infos ! 0),
                           channel_ids = [0 ..< cur_channel_idx]\<rparr>))
      | Path p \<Rightarrow> (case from_file ev p of None \<Rightarrow> Inl OSError | Some r \<Rightarrow> Inr r))"

subsection \<open>create\_array (lines 84-88)\<close>

text \<open>\<^verbatim>\<open>s.endswith(suffix)\<close>.\<close>

definition endswith :: "string \<Rightarrow> string \<Rightarrow> bool" where
  "endswith s sfx = (length sfx \<le> length s \<and> drop (length s - length sfx) s = sfx)"

text \<open>
  \<^verbatim>\<open>os.path.split\<close> of the Python library (posixpath): the tail is what follows the last
  slash, the head is what precedes it, without its trailing slashes unless it consists
  of slashes only.
\<close>

definition os_path_split :: "string \<Rightarrow> string \<times> string" where
  "os_path_split p =
     (let tail = rev (takeWhile (\<lambda>c. c \<noteq> CHR ''/'') (rev p));
          head = rev (dropWhile (\<lambda>c. c \<noteq> CHR ''/'') (rev p));
          head' = (if head \<noteq> [] \<and> \<not> list_all (\<lambda>c. c = CHR ''/'') head
                   then rev (dropWhile (\<lambda>c. c = CHR ''/'') (rev head))
                   else head)
      in (head', tail))"

definition create_array :: "env \<Rightarrow> string \<Rightarrow> error + array" where
  "create_array ev path =
     (if \<not> endswith path ''.npy'' then Inl (AssertionError OnlyNumpySupported)
      else
        (case np_load_shape ev path of
           None \<Rightarrow> Inl OSError
         | Some arr_shape \<Rightarrow>
             (case os_path_split path of
                (parent, name) \<Rightarrow>
                  Inr \<lparr>storage_type = ''numpy_files'',
                       storage_path = parent,
                       storage_key = name,
                       shape = arr_shape\<rparr>)))"

subsection \<open>The collaborators the loop body calls\<close>

text \<open>
  Modelled from the spec: \<^verbatim>\<open>get_full_path\<close> is defined in
  \<^verbatim>\<open>nemo.collections.common.parts.preprocessing.manifest\<close>, which is not under src/.
  Step 1 of section 4.1: the field holds a single path or a list of paths, and each is
  resolved against the manifest's location. Any other value is rejected.
\<close>

fun as_strings :: "json list \<Rightarrow> string list option" where
  "as_strings [] = Some []"
| "as_strings (JStr s # vs) = (case as_strings vs of None \<Rightarrow> None | Some ss \<Rightarrow> Some (s # ss))"
| "as_strings (v # vs) = None"

definition get_full_path :: "env \<Rightarrow> json \<Rightarrow> string \<Rightarrow> error + path_or_paths" where
  "get_full_path ev audio_file manifest_file =
     (case audio_file of
        JStr s \<Rightarrow> Inr (Path (resolve ev s manifest_file))
      | JList vs \<Rightarrow>
          (case as_strings vs of
             None \<Rightarrow> Inl ValueError
           | Some ss \<Rightarrow> Inr (Paths (map (\<lambda>s. resolve ev s manifest_file) ss)))
      | _ \<Rightarrow> Inl ValueError)"

text \<open>
  Modelled from the spec: \<^verbatim>\<open>Recording.to_cut\<close>, \<^verbatim>\<open>truncate\<close>, \<^verbatim>\<open>with_channels\<close> and
  \<^verbatim>\<open>with_custom\<close> are methods of the Lhotse library, which is not under src/. Step 3 of
  section 4.1: the Segment is the primary recording sliced to \<open>[offset, offset + duration)\<close>;
  step 4: the Segment is narrowed to the named channel subset. The definitions follow
  the library where it says more than the spec: times are counted in whole samples, a
  slice is cut at the end of the recording, and a slice gets an identifier of its own.
\<close>

definition to_cut :: "recording \<Rightarrow> cut" where
  "to_cut r =
     \<lparr>cut_id = rec_id r, start = 0, cut_duration = rec_duration r,
      channel = channel_ids r, recording = r, custom = None\<rparr>"

text \<open>
  A number of the manifest line in arithmetic; Python's \<^verbatim>\<open>True\<close> and \<^verbatim>\<open>False\<close> count as 1
  and 0, anything else raises. Floating-point numbers are rationals here.
\<close>

fun as_number :: "json \<Rightarrow> error + rat" where
  "as_number (JInt i) = Inr (of_int i)"
| "as_number (JFloat x) = Inr x"
| "as_number (JBool b) = Inr (if b then 1 else 0)"
| "as_number v = Inl TypeError"

text \<open>
  \<^verbatim>\<open>compute_num_samples\<close>: seconds to samples, a half rounded away from zero; and
  \<^verbatim>\<open>add_durations\<close>: the sum of the durations' samples, in seconds. The library first
  rounds the floating-point product to eight decimals, which on rationals is left out.
\<close>

definition round_half_up :: "rat \<Rightarrow> int" where
  "round_half_up x = (if 0 \<le> x then \<lfloor>x + 1 / 2\<rfloor> else - \<lfloor>- x + 1 / 2\<rfloor>)"

definition compute_num_samples :: "rat \<Rightarrow> nat \<Rightarrow> int" where
  "compute_num_samples d sr = round_half_up (d * of_nat sr)"

definition add_durations :: "rat list \<Rightarrow> nat \<Rightarrow> error + rat" where
  "add_durations durs sr =
     (if sr = 0 then Inl ZeroDivisionError
      else Inr (of_int (sum_list (map (\<lambda>d. compute_num_samples d sr) durs)) / of_nat sr))"

text \<open>
  \<^verbatim>\<open>cut.truncate(duration=..., offset=...)\<close>: the offset must not be negative; the new start
  is the old one plus the offset; the new duration is the duration asked for (the cut's
  own when it is \<^verbatim>\<open>None\<close>), must be positive, and is shortened by what would lie past
  the end of the cut; the slice gets a fresh identifier.
\<close>

definition truncate :: "env \<Rightarrow> cut \<Rightarrow> json \<Rightarrow> json \<Rightarrow> error + cut" where
  "truncate ev c duration offset =
     (let sr = sampling_rate (recording c) in
      and_then (as_number offset) (\<lambda>off.
        if off < 0 then Inl (AssertionError NegativeOffset)
        else
          and_then (add_durations [start c, off] sr) (\<lambda>s.
          and_then (if duration = JNull then Inr (cut_duration c) else as_number duration) (\<lambda>d.
          and_then (add_durations [off, d] sr) (\<lambda>until.
          and_then (add_durations [until, - off] sr) (\<lambda>new_duration.
            if \<not> 0 < new_duration then Inl (AssertionError NonPositiveDuration)
            else
              and_then (add_durations [max s 0, new_duration, - start c, - cut_duration c] sr)
                (\<lambda>duration_past_end.
              and_then (if 0 < duration_past_end
                        then add_durations [new_duration, - duration_past_end] sr
                        else Inr new_duration) (\<lambda>trimmed.
                Inr (c\<lparr>cut_id := uuid4 ev, start := max s 0, cut_duration := trimmed\<rparr>)))))))))"

text \<open>
  \<^verbatim>\<open>cut.with_channels(channels)\<close>: one channel index or a list of them, every one a channel
  of the recording; the cut then has these channels. An entry that is not an integer is
  rejected.
\<close>

fun as_ints :: "json list \<Rightarrow> int list option" where
  "as_ints [] = Some []"
| "as_ints (JInt i # vs) = (case as_ints vs of None \<Rightarrow> None | Some ns \<Rightarrow> Some (i # ns))"
| "as_ints (v # vs) = None"

fun selector_ints :: "json \<Rightarrow> int list option" where
  "selector_ints (JInt i) = Some [i]"
| "selector_ints (JList vs) = as_ints vs"
| "selector_ints v = None"

definition with_channels :: "cut \<Rightarrow> json \<Rightarrow> error + cut" where
  "with_channels c chans =
     (case selector_ints chans of
        None \<Rightarrow> Inl TypeError
      | Some ns \<Rightarrow>
          if list_all (\<lambda>i. 0 \<le> i \<and> nat i \<in> set (channel_ids (recording c))) ns
          then Inr (c\<lparr>channel := map nat ns\<rparr>)
          else Inl (AssertionError ChannelsNotInRecording))"

text \<open>\<^verbatim>\<open>cut.with_custom(name, value)\<close>: the cut with one more entry in its extension map.\<close>

definition with_custom :: "cut \<Rightarrow> string \<Rightarrow> json \<Rightarrow> cut" where
  "with_custom c name v = set_custom_attr c name (CJson v)"

text \<open>
  \<^verbatim>\<open>d.update(item)\<close> on an extension map: the pairs of the item in order, each replacing the
  value of a key already there or appended as the newest key.
\<close>

definition merge_item :: "(string \<times> custom_value) list \<Rightarrow> dict \<Rightarrow> (string \<times> custom_value) list" where
  "merge_item d item = fold (\<lambda>(k, v). AList.update k (CJson v)) item d"

subsection \<open>The loop body of main (lines 94-140)\<close>

text \<open>\<^verbatim>\<open>item.pop(k)\<close> raises on a missing key; \<^verbatim>\<open>item.pop(k, None)\<close> does not.\<close>

definition dict_pop :: "dict \<Rightarrow> string \<Rightarrow> error + (json \<times> dict)" where
  "dict_pop d k =
     (case dict_get d k of
        None \<Rightarrow> Inl (KeyError k)
      | Some v \<Rightarrow> Inr (v, dict_del d k))"

text \<open>
  \<^verbatim>\<open>(channels := item.pop(k, None)) is not None\<close>: the key is removed; a JSON null is
  Python's \<^verbatim>\<open>None\<close>, so it counts as no selector.
\<close>

definition pop_selector :: "dict \<Rightarrow> string \<Rightarrow> json option \<times> dict" where
  "pop_selector d k =
     (case dict_get d k of
        None \<Rightarrow> (None, dict_del d k)
      | Some v \<Rightarrow> (if v = JNull then None else Some v, dict_del d k))"

text \<open>\<^verbatim>\<open>len(channels)\<close> on a JSON value.\<close>

fun py_len :: "json \<Rightarrow> error + nat" where
  "py_len (JList vs) = Inr (length vs)"
| "py_len (JStr s) = Inr (length s)"
| "py_len (JObj kvs) = Inr (length kvs)"
| "py_len v = Inl TypeError"

text \<open>\<^verbatim>\<open>assert len(channels) == 1\<close> of lines 102, 114 and 126.\<close>

definition assert_single :: "string \<Rightarrow> json \<Rightarrow> error + unit" where
  "assert_single selector_name chans =
     (case py_len chans of
        Inl e \<Rightarrow> Inl e
      | Inr n \<Rightarrow>
          if n = 1 then Inr ()
          else Inl (AssertionError (SingleChannelSelector selector_name)))"

text \<open>Lines 97-98. The arguments of \<^verbatim>\<open>truncate\<close> are evaluated in the order written.\<close>

definition stage_primary :: "args \<Rightarrow> env \<Rightarrow> dict \<Rightarrow> error + (cut \<times> dict)" where
  "stage_primary a ev item =
     (case dict_pop item (input_key a) of
        Inl e \<Rightarrow> Inl e
      | Inr (audio_file, item1) \<Rightarrow>
          (case get_full_path ev audio_file (input a) of
             Inl e \<Rightarrow> Inl e
           | Inr pp \<Rightarrow>
               (case create_recording ev pp of
                  Inl e \<Rightarrow> Inl e
                | Inr r \<Rightarrow>
                    (case dict_pop item1 ''duration'' of
                       Inl e \<Rightarrow> Inl e
                     | Inr (duration, item2) \<Rightarrow>
                         (case truncate ev (to_cut r) duration
                                 (case dict_get item2 ''offset'' of
                                    None \<Rightarrow> JFloat 0 | Some off \<Rightarrow> off) of
                            Inl e \<Rightarrow> Inl e
                          | Inr c \<Rightarrow> Inr (c, dict_del item2 ''offset''))))))"

text \<open>Lines 100-106.\<close>

definition stage_input_selector :: "cut \<times> dict \<Rightarrow> error + (cut \<times> dict)" where
  "stage_input_selector st =
     (case st of (c, item) \<Rightarrow>
        (case pop_selector item INPUT_CHANNEL_SELECTOR of
           (None, item1) \<Rightarrow> Inr (c, item1)
         | (Some chans, item1) \<Rightarrow>
             if cut_num_channels c = 1
             then (case assert_single INPUT_CHANNEL_SELECTOR chans of
                     Inl e \<Rightarrow> Inl e
                   | Inr u \<Rightarrow> Inr (c, item1))
             else (case with_channels c chans of
                     Inl e \<Rightarrow> Inl e
                   | Inr c' \<Rightarrow> Inr (c', item1))))"

text \<open>Lines 108-118.\<close>

definition stage_target :: "args \<Rightarrow> env \<Rightarrow> cut \<times> dict \<Rightarrow> error + (cut \<times> dict)" where
  "stage_target a ev st =
     (case st of (c, item) \<Rightarrow>
        if dict_in (target_key a) item then
          (case dict_pop item (target_key a) of
             Inl e \<Rightarrow> Inl e
           | Inr (audio_file, item1) \<Rightarrow>
               (case get_full_path ev audio_file (input a) of
                  Inl e \<Rightarrow> Inl e
                | Inr pp \<Rightarrow>
                    (case create_recording ev pp of
                       Inl e \<Rightarrow> Inl e
                     | Inr r \<Rightarrow>
                         (case pop_selector item1 TARGET_CHANNEL_SELECTOR of
                            (None, item2) \<Rightarrow>
                              Inr (set_custom_attr c ''target_recording'' (CRecording r), item2)
                          | (Some chans, item2) \<Rightarrow>
                              if rec_num_channels r = 1
                              then (case assert_single TARGET_CHANNEL_SELECTOR chans of
                                      Inl e \<Rightarrow> Inl e
                                    | Inr u \<Rightarrow>
                                        Inr (set_custom_attr c ''target_recording''
                                               (CRecording r), item2))
                              else Inr (with_custom
                                          (set_custom_attr c ''target_recording'' (CRecording r))
                                          LHOTSE_TARGET_CHANNEL_SELECTOR chans, item2)))))
        else Inr (c, item))"

text \<open>Lines 120-130.\<close>

definition stage_reference :: "args \<Rightarrow> env \<Rightarrow> cut \<times> dict \<Rightarrow> error + (cut \<times> dict)" where
  "stage_reference a ev st =
     (case st of (c, item) \<Rightarrow>
        if dict_in (reference_key a) item then
          (case dict_pop item (reference_key a) of
             Inl e \<Rightarrow> Inl e
           | Inr (audio_file, item1) \<Rightarrow>
               (case get_full_path ev audio_file (input a) of
                  Inl e \<Rightarrow> Inl e
                | Inr pp \<Rightarrow>
                    (case create_recording ev pp of
                       Inl e \<Rightarrow> Inl e
                     | Inr r \<Rightarrow>
                         (case pop_selector item1 REFERENCE_CHANNEL_SELECTOR of
                            (None, item2) \<Rightarrow>
                              Inr (set_custom_attr c ''reference_recording'' (CRecording r), item2)
                          | (Some chans, item2) \<Rightarrow>
                              if rec_num_channels r = 1
                              then (case assert_single REFERENCE_CHANNEL_SELECTOR chans of
                                      Inl e \<Rightarrow> Inl e
                                    | Inr u \<Rightarrow>
                                        Inr (set_custom_attr c ''reference_recording''
                                               (CRecording r), item2))
                              else Inr (with_custom
                                          (set_custom_attr c ''reference_recording'' (CRecording r))
                                          LHOTSE_REFERENCE_CHANNEL_SELECTOR chans, item2)))))
        else Inr (c, item))"

text \<open>
  Lines 132-135. \<^verbatim>\<open>create_array\<close> calls \<^verbatim>\<open>path.endswith\<close>, which a list of paths does
  not have.
\<close>

definition stage_embedding :: "args \<Rightarrow> env \<Rightarrow> cut \<times> dict \<Rightarrow> error + (cut \<times> dict)" where
  "stage_embedding a ev st =
     (case st of (c, item) \<Rightarrow>
        if dict_in (embedding_key a) item then
          (case dict_pop item (embedding_key a) of
             Inl e \<Rightarrow> Inl e
           | Inr (audio_file, item1) \<Rightarrow>
               (case get_full_path ev audio_file (input a) of
                  Inl e \<Rightarrow> Inl e
                | Inr (Paths ps) \<Rightarrow> Inl AttributeError
                | Inr (Path p) \<Rightarrow>
                    (case create_array ev p of
                       Inl e \<Rightarrow> Inl e
                     | Inr arr \<Rightarrow>
                         Inr (set_custom_attr c ''embedding_vector'' (CArray arr), item1))))
        else Inr (c, item))"

text \<open>
  Lines 137-138: what is left of the item goes to the custom fields. \<^verbatim>\<open>cut.custom\<close> is
  \<^verbatim>\<open>None\<close> when nothing was assigned to the cut, and \<^verbatim>\<open>None\<close> has no \<^verbatim>\<open>update\<close>.
\<close>

definition copy_remaining :: "cut \<times> dict \<Rightarrow> error + cut" where
  "copy_remaining st =
     (case st of (c, item) \<Rightarrow>
        if item \<noteq> [] then
          (case custom c of
             None \<Rightarrow> Inl AttributeError
           | Some d \<Rightarrow> Inr (c\<lparr>custom := Some (merge_item d item)\<rparr>))
        else Inr c)"

text \<open>Lines 97-130: the cut and the item as they stand before line 132.\<close>

definition consume_recordings :: "args \<Rightarrow> env \<Rightarrow> dict \<Rightarrow> error + (cut \<times> dict)" where
  "consume_recordings a ev item =
     and_then (and_then (and_then (stage_primary a ev item)
       stage_input_selector) (stage_target a ev)) (stage_reference a ev)"

text \<open>Lines 97-135: the cut and the item as they stand before line 137.\<close>

definition consume_fields :: "args \<Rightarrow> env \<Rightarrow> dict \<Rightarrow> error + (cut \<times> dict)" where
  "consume_fields a ev item =
     and_then (consume_recordings a ev item) (stage_embedding a ev)"

definition convert_item :: "args \<Rightarrow> env \<Rightarrow> dict \<Rightarrow> error + cut" where
  "convert_item a ev item =
     and_then (consume_fields a ev item) copy_remaining"

subsection \<open>main (lines 91-140)\<close>

text \<open>
  The writer is the list of cuts written so far. An exception leaves the loop: the
  run ends with the error and with what was written before it. A line that converts
  has taken one identifier (in \<^verbatim>\<open>truncate\<close>).
\<close>

fun main_loop :: "args \<Rightarrow> env \<Rightarrow> dict list \<Rightarrow> cut list \<Rightarrow> cut list \<times> error option" where
  "main_loop a ev [] writer = (writer, None)"
| "main_loop a ev (item # items) writer =
     (case convert_item a ev item of
        Inl e \<Rightarrow> (writer, Some e)
      | Inr c \<Rightarrow> main_loop a (drawn ev) items (writer @ [c]))"

definition main :: "args \<Rightarrow> env \<Rightarrow> cut list \<times> error option" where
  "main a ev = main_loop a ev (load_jsonl ev (input a)) []"

subsection \<open>Key sets\<close>

text \<open>
  The four configurable keys and the five fixed ones name nine different fields; this
  holds for the defaults of \<^verbatim>\<open>parse_args\<close>.
\<close>

definition distinct_keys :: "args \<Rightarrow> bool" where
  "distinct_keys a =
     distinct [input_key a, target_key a, reference_key a, embedding_key a,
               ''duration'', ''offset'', INPUT_CHANNEL_SELECTOR,
               TARGET_CHANNEL_SELECTOR, REFERENCE_CHANNEL_SELECTOR]"

text \<open>
  The keys of a line that the converter reads, in the words of the spec: the primary
  path and the duration; the offset, the input selector and the target, reference and
  embedding paths when the line has them; the target (reference) selector when the line
  has it together with the target (reference) path.
\<close>

definition consumed_keys :: "args \<Rightarrow> dict \<Rightarrow> string set" where
  "consumed_keys a item =
     {input_key a, ''duration''} \<union>
     ({''offset'', INPUT_CHANNEL_SELECTOR, target_key a, reference_key a, embedding_key a}
        \<inter> keys item) \<union>
     (if target_key a \<in> keys item then {TARGET_CHANNEL_SELECTOR} \<inter> keys item else {}) \<union>
     (if reference_key a \<in> keys item then {REFERENCE_CHANNEL_SELECTOR} \<inter> keys item else {})"

subsection \<open>An example file system and manifest\<close>

text \<open>
  Three audio files and one numpy file under \<^verbatim>\<open>/data\<close>; relative paths are resolved
  against the directory of the manifest; the identifiers are \<open>id-i\<close>, \<open>id-ii\<close>, and so on.
\<close>

definition example_env :: env where
  "example_env =
     \<lparr>info = (\<lambda>p.
         if p = ''/data/a.wav'' then
           Some \<lparr>samplerate = 16000, frames = 32000, channels = 2, info_duration = 2\<rparr>
         else if p = ''/data/b.wav'' then
           Some \<lparr>samplerate = 16000, frames = 8000, channels = 1, info_duration = 1 / 2\<rparr>
         else if p = ''/data/c.wav'' then
           Some \<lparr>samplerate = 8000, frames = 8000, channels = 1, info_duration = 1\<rparr>
         else None),
      from_file = (\<lambda>p.
         if p = ''/data/a.wav'' then
           Some \<lparr>rec_id = ''a'', sources = [\<lparr>src_type = ''file'', src_channels = [0, 1],
                  source = ''/data/a.wav''\<rparr>], sampling_rate = 16000, num_samples = 32000,
                  rec_duration = 2, channel_ids = [0, 1]\<rparr>
         else if p = ''/data/b.wav'' then
           Some \<lparr>rec_id = ''b'', sources = [\<lparr>src_type = ''file'', src_channels = [0],
                  source = ''/data/b.wav''\<rparr>], sampling_rate = 16000, num_samples = 8000,
                  rec_duration = 1 / 2, channel_ids = [0]\<rparr>
         else None),
      np_load_shape = (\<lambda>p. if p = ''/data/emb/e.npy'' then Some [3, 4] else None),
      resolve = (\<lambda>audio_file manifest_file.
         if audio_file \<noteq> [] \<and> hd audio_file = CHR ''/'' then audio_file
         else fst (os_path_split manifest_file) @ ''/'' @ audio_file),
      load_jsonl = (\<lambda>p.
         if p = ''/data/mixed.json'' then
           [[(''audio_filepath'', JStr ''/data/b.wav''), (''duration'', JFloat (1 / 4))],
            [(''audio_filepath'', JList [JStr ''/data/a.wav'', JStr ''/data/c.wav'']),
             (''duration'', JInt 1)],
            [(''audio_filepath'', JStr ''/data/a.wav''), (''duration'', JInt 1)]]
         else []),
      uuids = (\<lambda>n. ''id-'' @ replicate (Suc n) CHR ''i'')\<rparr>"

section \<open>Slices\<close>

text \<open>Rounding to whole samples, and what \<^verbatim>\<open>truncate\<close> gives on a cut that starts at 0.\<close>

lemma round_half_up_of_int: "round_half_up (of_int n) = n"
proof -
  have "\<lfloor>rat_of_int n + 1 / 2\<rfloor> = n" by linarith
  moreover have "\<lfloor>- rat_of_int n + 1 / 2\<rfloor> = - n" by linarith
  ultimately show ?thesis by (simp add: round_half_up_def)
qed

lemma round_half_up_minus: "round_half_up (- x) = - round_half_up x"
proof (cases "x = 0")
  case True
  have "\<lfloor>(1 :: rat) / 2\<rfloor> = 0" by linarith
  with True show ?thesis by (simp add: round_half_up_def)
next
  case False
  then show ?thesis by (auto simp: round_half_up_def)
qed

lemma round_half_up_nonneg: "0 \<le> x \<Longrightarrow> 0 \<le> round_half_up x"
  by (simp add: round_half_up_def)

lemma compute_num_samples_whole:
  "0 < sr \<Longrightarrow> compute_num_samples (of_int n / of_nat sr) sr = n"
  by (simp add: compute_num_samples_def round_half_up_of_int)

lemma compute_num_samples_minus: "compute_num_samples (- d) sr = - compute_num_samples d sr"
  by (simp add: compute_num_samples_def round_half_up_minus)

lemma compute_num_samples_zero: "compute_num_samples 0 sr = 0"
  using round_half_up_of_int[of 0] by (simp add: compute_num_samples_def)

lemma compute_num_samples_nonneg: "0 \<le> d \<Longrightarrow> 0 \<le> compute_num_samples d sr"
  by (simp add: compute_num_samples_def round_half_up_nonneg)

lemma truncate_slice:
  assumes sr: "0 < sampling_rate (recording c)"
    and st: "start c = 0"
    and off: "as_number offset = Inr off" "0 \<le> off"
    and dur: "as_number duration = Inr d"
    and pos: "0 < compute_num_samples d (sampling_rate (recording c))"
  shows "truncate ev c duration offset =
     Inr (c\<lparr>cut_id := uuid4 ev,
            start := of_int (compute_num_samples off (sampling_rate (recording c)))
                       / of_nat (sampling_rate (recording c)),
            cut_duration :=
              of_int (min (compute_num_samples d (sampling_rate (recording c)))
                          (compute_num_samples (cut_duration c) (sampling_rate (recording c))
                             - compute_num_samples off (sampling_rate (recording c))))
                / of_nat (sampling_rate (recording c))\<rparr>)"
proof -
  define n where "n = sampling_rate (recording c)"
  define so where "so = compute_num_samples off n"
  define sd where "sd = compute_num_samples d n"
  define sc where "sc = compute_num_samples (cut_duration c) n"
  have n: "0 < n" "n \<noteq> 0" using sr by (simp_all add: n_def)
  have so0: "0 \<le> so" using off(2) by (simp add: so_def compute_num_samples_nonneg)
  have sd0: "0 < sd" using pos by (simp add: sd_def n_def)
  have notnull: "duration \<noteq> JNull" using dur by auto
  have s: "add_durations [start c, off] n = Inr (of_int so / of_nat n)"
    using n by (simp add: add_durations_def st compute_num_samples_zero so_def)
  have mx: "max (rat_of_int so / of_nat n) 0 = of_int so / of_nat n"
    using so0 n by simp
  have until: "add_durations [off, d] n = Inr (of_int (so + sd) / of_nat n)"
    using n by (simp add: add_durations_def so_def sd_def)
  have nd: "add_durations [of_int (so + sd) / of_nat n, - off] n = Inr (of_int sd / of_nat n)"
    using n
    by (simp add: add_durations_def compute_num_samples_whole[OF n(1)]
          compute_num_samples_minus so_def[symmetric] del: of_int_add)
  have ndpos: "0 < rat_of_int sd / of_nat n"
    using sd0 n by simp
  have past: "add_durations [of_int so / of_nat n, of_int sd / of_nat n, - start c,
                 - cut_duration c] n = Inr (of_int (so + sd - sc) / of_nat n)"
    using n
    by (simp add: add_durations_def compute_num_samples_whole[OF n(1)]
          compute_num_samples_minus st compute_num_samples_zero sc_def[symmetric])
  have "0 < rat_of_int (so + sd - sc) \<longleftrightarrow> 0 < so + sd - sc"
    by (simp only: of_int_0_less_iff)
  then have pastpos: "0 < rat_of_int (so + sd - sc) / of_nat n \<longleftrightarrow> 0 < so + sd - sc"
    using n by (simp only: zero_less_divide_iff) simp
  have trim: "add_durations [of_int sd / of_nat n, - (of_int (so + sd - sc) / of_nat n)] n
                = Inr (of_int (sc - so) / of_nat n)"
    using n
    by (simp add: add_durations_def compute_num_samples_whole[OF n(1)]
          compute_num_samples_minus del: of_int_add of_int_diff)
  have m: "min sd (sc - so) = (if 0 < so + sd - sc then sc - so else sd)"
    by auto
  show ?thesis
    unfolding truncate_def Let_def n_def[symmetric] so_def[symmetric] sd_def[symmetric]
      sc_def[symmetric] m
    using off(2) notnull
    by (simp add: and_then_def off(1) dur s mx until nd ndpos past pastpos trim
          del: of_int_add of_int_diff)
qed

lemma round_half_up_numeral: "round_half_up (numeral k) = numeral k"
  using round_half_up_of_int[of "numeral k"] by simp

lemma round_half_up_zero: "round_half_up 0 = 0"
  using round_half_up_of_int[of 0] by simp

lemma stage_primary_slice:
  assumes path: "dict_get item (input_key a) = Some v"
    and full: "get_full_path ev v (input a) = Inr pp"
    and built: "create_recording ev pp = Inr r"
    and sr: "0 < sampling_rate r"
    and dur: "dict_get (dict_del item (input_key a)) ''duration'' = Some dj"
      "as_number dj = Inr d" "0 < compute_num_samples d (sampling_rate r)"
    and off: "as_number (case dict_get (dict_del (dict_del item (input_key a)) ''duration'')
                               ''offset'' of None \<Rightarrow> JFloat 0 | Some oj \<Rightarrow> oj) = Inr off"
      "0 \<le> off"
  shows "stage_primary a ev item =
     Inr ((to_cut r)\<lparr>cut_id := uuid4 ev,
            start := of_int (compute_num_samples off (sampling_rate r)) / of_nat (sampling_rate r),
            cut_duration :=
              of_int (min (compute_num_samples d (sampling_rate r))
                          (compute_num_samples (rec_duration r) (sampling_rate r)
                             - compute_num_samples off (sampling_rate r)))
                / of_nat (sampling_rate r)\<rparr>,
          dict_del (dict_del (dict_del item (input_key a)) ''duration'') ''offset'')"
proof -
  have c: "recording (to_cut r) = r" "start (to_cut r) = 0" "cut_duration (to_cut r) = rec_duration r"
    by (simp_all add: to_cut_def)
  have "truncate ev (to_cut r) dj
          (case dict_get (dict_del (dict_del item (input_key a)) ''duration'') ''offset'' of
             None \<Rightarrow> JFloat 0 | Some oj \<Rightarrow> oj) =
     Inr ((to_cut r)\<lparr>cut_id := uuid4 ev,
            start := of_int (compute_num_samples off (sampling_rate r)) / of_nat (sampling_rate r),
            cut_duration :=
              of_int (min (compute_num_samples d (sampling_rate r))
                          (compute_num_samples (rec_duration r) (sampling_rate r)
                             - compute_num_samples off (sampling_rate r)))
                / of_nat (sampling_rate r)\<rparr>)"
    using truncate_slice[of "to_cut r" _ off dj d ev, unfolded c, OF sr refl off dur(2,3)]
    by simp
  then show ?thesis
    by (simp add: stage_primary_def dict_pop_def path full built dur(1))
qed

section \<open>Properties of create\_recording\<close>

lemma probe_loop_success:
  "map (info ev) ps = map Some infs \<Longrightarrow>
   probe_loop ev ps (cur, srcs, infos) =
     Inr (cur + sum_list (map channels infs),
          srcs @ map (\<lambda>k. \<lparr>src_type = ''file'',
                 src_channels = [cur + sum_list (take k (map channels infs)) ..<
                                 cur + sum_list (take k (map channels infs)) + channels (infs ! k)],
                 source = ps ! k\<rparr>) [0 ..< length ps],
          infos @ infs)"
proof (induction ps arbitrary: infs cur srcs infos)
  case Nil
  then show ?case by simp
next
  case (Cons p ps)
  then obtain i infs' where infs: "infs = i # infs'" and hd: "info ev p = Some i"
    and tl: "map (info ev) ps = map Some infs'"
    by (cases infs) auto
  show ?case
    using Cons.IH[OF tl, of "cur + channels i"] 
    by (simp add: infs hd map_upt_Suc add.assoc del: upt_Suc)
qed

lemma sum_take_Suc:
  "k < length cs \<Longrightarrow> sum_list (take (Suc k) cs) = sum_list (take k cs) + (cs ! k :: nat)"
  by (simp add: take_Suc_conv_app_nth)

lemma concat_blocks:
  "n \<le> length cs \<Longrightarrow>
   concat (map (\<lambda>k. [sum_list (take k cs) ..< sum_list (take (Suc k) cs)]) [0 ..< n])
     = [0 ..< sum_list (take n (cs :: nat list))]"
proof (induction n)
  case 0
  then show ?case by simp
next
  case (Suc n)
  then have n: "n < length cs" by simp
  have "[0 ..< sum_list (take n cs) + cs ! n] =
        [0 ..< sum_list (take n cs)] @ [sum_list (take n cs) ..< sum_list (take n cs) + cs ! n]"
    by (rule upt_add_eq_append) simp
  with Suc n show ?case
    by (simp add: sum_take_Suc)
qed

lemma create_recording_multi:
  assumes probes: "map (info ev) ps = map Some infs"
  shows "create_recording ev (Paths ps) =
     (if \<not> same_samplerates infs then Inl (AssertionError MismatchedSamplingRates)
      else if ps = [] then Inl UnboundLocalError
      else if last ps = [] then Inl IndexError
      else Inr \<lparr>rec_id = [hd (last ps)],
                sources = map (\<lambda>k. \<lparr>src_type = ''file'',
                   src_channels = [sum_list (take k (map channels infs)) ..<
                                   sum_list (take (Suc k) (map channels infs))],
                   source = ps ! k\<rparr>) [0 ..< length ps],
                sampling_rate = samplerate (infs ! 0),
                num_samples = frames (infs ! 0),
                rec_duration = info_duration (infs ! 0),
                channel_ids = [0 ..< sum_list (map channels infs)]\<rparr>)"
proof -
  have len: "length infs = length ps"
    using probes by (metis length_map)
  show ?thesis
    unfolding create_recording_def
    by (simp add: probe_loop_success[OF probes] loop_var_first_char_def sum_take_Suc len)
qed


lemma same_samplerates_iff:
  "same_samplerates infs = (\<forall>i\<in>set infs. samplerate i = samplerate (hd infs))"
  by (cases infs) (simp_all add: same_samplerates_def list_all_iff)

text \<open>The identifiers play no part in building a recording.\<close>

lemma probe_loop_uuids: "probe_loop (ev\<lparr>uuids := u\<rparr>) ps st = probe_loop ev ps st"
proof (induction ps arbitrary: st)
  case Nil
  then show ?case by simp
next
  case (Cons p ps)
  obtain cur srcs infos where st: "st = (cur, srcs, infos)" by (cases st) auto
  from Cons show ?case by (simp add: st split: option.splits)
qed

lemma create_recording_uuids: "create_recording (ev\<lparr>uuids := u\<rparr>) pp = create_recording ev pp"
  by (simp add: create_recording_def probe_loop_uuids split: path_or_paths.splits)

lemma get_full_path_uuids: "get_full_path (ev\<lparr>uuids := u\<rparr>) v m = get_full_path ev v m"
  by (cases v) (simp_all add: get_full_path_def split: option.splits)

lemma main_loop_abort:
  "main_loop a ev pre w0 = (w, None) \<Longrightarrow>
   (\<And>u. convert_item a (ev\<lparr>uuids := u\<rparr>) item = Inl e) \<Longrightarrow>
   main_loop a ev (pre @ item # post) w0 = (w, Some e)"
proof (induction pre arbitrary: ev w0)
  case Nil
  from Nil.prems(2)[of "uuids ev"] have "convert_item a ev item = Inl e" by simp
  with Nil.prems(1) show ?case by simp
next
  case (Cons x pre)
  show ?case
  proof (cases "convert_item a ev x")
    case (Inl e')
    with Cons.prems(1) show ?thesis by simp
  next
    case (Inr c)
    with Cons.prems(1) have run: "main_loop a (drawn ev) pre (w0 @ [c]) = (w, None)" by simp
    have "\<And>u. convert_item a (drawn ev\<lparr>uuids := u\<rparr>) item = Inl e"
      using Cons.prems(2) by (simp add: drawn_def)
    from Cons.IH[OF run this] Inr show ?thesis by simp
  qed
qed

lemma convert_item_primary_error:
  "dict_get item (input_key a) = Some v \<Longrightarrow> get_full_path ev v (input a) = Inr pp \<Longrightarrow>
   create_recording ev pp = Inl e \<Longrightarrow> convert_item a ev item = Inl e"
  by (simp add: convert_item_def consume_fields_def consume_recordings_def and_then_def
        stage_primary_def dict_pop_def)

text \<open>
  Claim C2. A recording built from a list of paths has one source per path, in list
  order. With \<open>cs\<close> the channel counts probed for the paths, the \<open>k\<close>-th source (counting
  from 0) holds the channel indices from the sum of the first \<open>k\<close> counts up to, not
  including, the sum of the first \<open>k + 1\<close> counts; the recording's \<open>channel_ids\<close> run from 0
  up to, not including, the sum of all counts; and the blocks of the sources, one after
  the other, are exactly that list: no gap, no overlap. The list of paths is not empty.
\<close>

theorem multi_file_channel_blocks:
  assumes built: "create_recording ev (Paths ps) = Inr r"
    and probes: "map (info ev) ps = map Some infs"
  shows "ps \<noteq> [] \<and>
     sources r =
       map (\<lambda>k. \<lparr>src_type = ''file'',
                  src_channels = [sum_list (take k (map channels infs)) ..<
                                  sum_list (take (Suc k) (map channels infs))],
                  source = ps ! k\<rparr>) [0 ..< length ps] \<and>
     channel_ids r = [0 ..< sum_list (map channels infs)] \<and>
     concat (map src_channels (sources r)) = channel_ids r"
proof -
  have len: "length infs = length ps"
    using probes by (metis length_map)
  have r: "ps \<noteq> [] \<and> r = \<lparr>rec_id = [hd (last ps)],
                sources = map (\<lambda>k. \<lparr>src_type = ''file'',
                   src_channels = [sum_list (take k (map channels infs)) ..<
                                   sum_list (take (Suc k) (map channels infs))],
                   source = ps ! k\<rparr>) [0 ..< length ps],
                sampling_rate = samplerate (infs ! 0),
                num_samples = frames (infs ! 0),
                rec_duration = info_duration (infs ! 0),
                channel_ids = [0 ..< sum_list (map channels infs)]\<rparr>"
    using built unfolding create_recording_multi[OF probes]
    by (simp split: if_splits)
  have cc: "concat (map (\<lambda>k. [sum_list (take k (map channels infs)) ..<
                 sum_list (take (Suc k) (map channels infs))]) [0 ..< length ps])
            = [0 ..< sum_list (map channels infs)]"
    using concat_blocks[of "length ps" "map channels infs"] by (simp add: len)
  from r have 1: "ps \<noteq> []" and 2: "sources r = map (\<lambda>k. \<lparr>src_type = ''file'',
                   src_channels = [sum_list (take k (map channels infs)) ..<
                                   sum_list (take (Suc k) (map channels infs))],
                   source = ps ! k\<rparr>) [0 ..< length ps]"
    and 3: "channel_ids r = [0 ..< sum_list (map channels infs)]"
    by simp_all
  have 4: "concat (map src_channels (sources r)) = channel_ids r"
    unfolding 2 3 using cc by (simp add: comp_def)
  from 1 2 3 4 show ?thesis by blast
qed

text \<open>
  The counts \<open>[2, 1]\<close> give the blocks \<open>[0, 1]\<close> and \<open>[2]\<close>.
\<close>

theorem multi_file_channel_blocks_witness:
  "create_recording example_env (Paths [''/data/a.wav'', ''/data/b.wav''])
     = Inr \<lparr>rec_id = ''/'',
            sources = [\<lparr>src_type = ''file'', src_channels = [0, 1], source = ''/data/a.wav''\<rparr>,
                       \<lparr>src_type = ''file'', src_channels = [2], source = ''/data/b.wav''\<rparr>],
            sampling_rate = 16000, num_samples = 32000, rec_duration = 2,
            channel_ids = [0, 1, 2]\<rparr> \<and>
   map channels
     [\<lparr>samplerate = 16000, frames = 32000, channels = 2, info_duration = 2\<rparr>,
      \<lparr>samplerate = 16000, frames = 8000, channels = 1, info_duration = 1 / 2\<rparr>] = [2, 1] \<and>
   map (\<lambda>k. [sum_list (take k [2, 1 :: nat]) ..< sum_list (take (Suc k) [2, 1])]) [0 ..< 2]
     = [[0, 1], [2]]"
proof -
  let ?ps = "[''/data/a.wav'', ''/data/b.wav'']"
  let ?infs = "[\<lparr>samplerate = 16000, frames = 32000, channels = 2, info_duration = 2\<rparr>,
      \<lparr>samplerate = 16000, frames = 8000, channels = 1, info_duration = 1 / 2\<rparr>]"
  let ?r = "\<lparr>rec_id = ''/'',
            sources = [\<lparr>src_type = ''file'', src_channels = [0, 1], source = ''/data/a.wav''\<rparr>,
                       \<lparr>src_type = ''file'', src_channels = [2], source = ''/data/b.wav''\<rparr>],
            sampling_rate = 16000, num_samples = 32000, rec_duration = 2,
            channel_ids = [0, 1, 2]\<rparr>"
  have built: "create_recording example_env (Paths ?ps) = Inr ?r"
    by (simp add: create_recording_def example_env_def same_samplerates_def
          loop_var_first_char_def upt_rec)
  have probes: "map (info example_env) ?ps = map Some ?infs"
    by (simp add: example_env_def)
  have blocks: "map (\<lambda>k. [sum_list (take k [2, 1 :: nat]) ..< sum_list (take (Suc k) [2, 1])])
      [0 ..< 2] = [[0, 1], [2]]"
    by (simp add: upt_rec)
  from multi_file_channel_blocks[OF built probes] built blocks show ?thesis
    by simp
qed


text \<open>
  Claim C3. When every file of a list of paths was probed and one of them has a
  sampling rate other than the first file's, \<^verbatim>\<open>create_recording\<close> fails with the
  assertion on the sampling rates (the spec's SchemaViolation), and a run whose manifest
  has such a list as the primary path of a line ends with that error, having written
  the cuts of the lines before it only. When all rates are equal that assertion does
  not fail.
\<close>

theorem samplerate_mismatch_aborts:
  assumes probes: "map (info ev) ps = map Some infs"
  shows "((\<exists>i\<in>set infs. samplerate i \<noteq> samplerate (hd infs)) \<longrightarrow>
            create_recording ev (Paths ps) = Inl (AssertionError MismatchedSamplingRates) \<and>
            spec_error_kind (AssertionError MismatchedSamplingRates) = Some SchemaViolation \<and>
            (load_jsonl ev (input a) = pre @ item # post \<and>
             main_loop a ev pre [] = (written, None) \<and>
             dict_get item (input_key a) = Some v \<and>
             get_full_path ev v (input a) = Inr (Paths ps) \<longrightarrow>
               main a ev = (written, Some (AssertionError MismatchedSamplingRates)))) \<and>
         ((\<forall>i\<in>set infs. samplerate i = samplerate (hd infs)) \<longrightarrow>
            create_recording ev (Paths ps) \<noteq> Inl (AssertionError MismatchedSamplingRates))"
proof (intro conjI impI)
  assume "\<exists>i\<in>set infs. samplerate i \<noteq> samplerate (hd infs)"
  then have "\<not> same_samplerates infs"
    by (simp add: same_samplerates_iff)
  then show fails: "create_recording ev (Paths ps) = Inl (AssertionError MismatchedSamplingRates)"
    by (simp add: create_recording_multi[OF probes])
  show "spec_error_kind (AssertionError MismatchedSamplingRates) = Some SchemaViolation"
    by simp
  assume run: "load_jsonl ev (input a) = pre @ item # post \<and>
             main_loop a ev pre [] = (written, None) \<and>
             dict_get item (input_key a) = Some v \<and>
             get_full_path ev v (input a) = Inr (Paths ps)"
  have "convert_item a (ev\<lparr>uuids := u\<rparr>) item
          = Inl (AssertionError MismatchedSamplingRates)" for u
    using run fails
    by (intro convert_item_primary_error[where v = v and pp = "Paths ps"])
       (simp_all add: get_full_path_uuids create_recording_uuids)
  with run show "main a ev = (written, Some (AssertionError MismatchedSamplingRates))"
    by (simp add: main_def main_loop_abort)
next
  assume "\<forall>i\<in>set infs. samplerate i = samplerate (hd infs)"
  then have "same_samplerates infs"
    by (simp add: same_samplerates_iff)
  then show "create_recording ev (Paths ps) \<noteq> Inl (AssertionError MismatchedSamplingRates)"
    by (simp add: create_recording_multi[OF probes])
qed


text \<open>
  A manifest of three lines whose second line lists a 16 kHz and an 8 kHz file.
\<close>

theorem samplerate_mismatch_aborts_witness:
  "map (info example_env) [''/data/a.wav'', ''/data/c.wav''] =
     map Some [\<lparr>samplerate = 16000, frames = 32000, channels = 2, info_duration = 2\<rparr>,
              \<lparr>samplerate = 8000, frames = 8000, channels = 1, info_duration = 1\<rparr>] \<and>
   create_recording example_env (Paths [''/data/a.wav'', ''/data/c.wav''])
     = Inl (AssertionError MismatchedSamplingRates) \<and>
   main (parse_args ''/data/mixed.json'' ''/data/out.jsonl'') example_env
     = ([\<lparr>cut_id = ''id-i'', start = 0, cut_duration = 1 / 4, channel = [0],
          recording = \<lparr>rec_id = ''b'', sources = [\<lparr>src_type = ''file'', src_channels = [0],
             source = ''/data/b.wav''\<rparr>], sampling_rate = 16000, num_samples = 8000,
             rec_duration = 1 / 2, channel_ids = [0]\<rparr>,
          custom = None\<rparr>],
        Some (AssertionError MismatchedSamplingRates)) \<and>
   map (info example_env) [''/data/a.wav'', ''/data/b.wav''] =
     map Some [\<lparr>samplerate = 16000, frames = 32000, channels = 2, info_duration = 2\<rparr>,
              \<lparr>samplerate = 16000, frames = 8000, channels = 1, info_duration = 1 / 2\<rparr>] \<and>
   create_recording example_env (Paths [''/data/a.wav'', ''/data/b.wav''])
     \<noteq> Inl (AssertionError MismatchedSamplingRates)"
proof -
  let ?a = "parse_args ''/data/mixed.json'' ''/data/out.jsonl''"
  let ?bad = "[\<lparr>samplerate = 16000, frames = 32000, channels = 2, info_duration = 2\<rparr>,
              \<lparr>samplerate = 8000, frames = 8000, channels = 1, info_duration = 1\<rparr>]"
  let ?good = "[\<lparr>samplerate = 16000, frames = 32000, channels = 2, info_duration = 2\<rparr>,
              \<lparr>samplerate = 16000, frames = 8000, channels = 1, info_duration = 1 / 2\<rparr>]"
  let ?item0 = "[(''audio_filepath'', JStr ''/data/b.wav''), (''duration'', JFloat (1 / 4))]"
  let ?item1 = "[(''audio_filepath'', JList [JStr ''/data/a.wav'', JStr ''/data/c.wav'']),
             (''duration'', JInt 1)]"
  let ?item2 = "[(''audio_filepath'', JStr ''/data/a.wav''), (''duration'', JInt 1)]"
  let ?cut0 = "\<lparr>cut_id = ''id-i'', start = 0, cut_duration = 1 / 4, channel = [0],
          recording = \<lparr>rec_id = ''b'', sources = [\<lparr>src_type = ''file'', src_channels = [0],
             source = ''/data/b.wav''\<rparr>], sampling_rate = 16000, num_samples = 8000,
             rec_duration = 1 / 2, channel_ids = [0]\<rparr>,
          custom = None\<rparr>"
  have bad: "map (info example_env) [''/data/a.wav'', ''/data/c.wav''] = map Some ?bad"
    by (simp add: example_env_def)
  have good: "map (info example_env) [''/data/a.wav'', ''/data/b.wav''] = map Some ?good"
    by (simp add: example_env_def)
  have differ: "\<exists>i\<in>set ?bad. samplerate i \<noteq> samplerate (hd ?bad)"
    by simp
  have agree: "\<forall>i\<in>set ?good. samplerate i = samplerate (hd ?good)"
    by simp
  have lines: "load_jsonl example_env (input ?a) = [?item0] @ ?item1 # [?item2]"
    by (simp add: example_env_def parse_args_def)
  have prim: "stage_primary ?a example_env ?item0 = Inr (?cut0, [])"
    using stage_primary_slice[of ?item0 ?a "JStr ''/data/b.wav''" example_env
        "Path ''/data/b.wav''" _ "JFloat (1 / 4)" "1 / 4" 0]
    by (simp add: dict_get_def dict_del_def get_full_path_def create_recording_def
          parse_args_def example_env_def compute_num_samples_def round_half_up_numeral
          round_half_up_zero uuid4_def to_cut_def)
  have first: "convert_item ?a example_env ?item0 = Inr ?cut0"
    by (simp add: convert_item_def consume_fields_def consume_recordings_def and_then_def
          prim[unfolded parse_args_def] stage_input_selector_def stage_target_def stage_reference_def stage_embedding_def
          copy_remaining_def dict_get_def dict_del_def dict_in_def pop_selector_def
          parse_args_def)
  have before: "main_loop ?a example_env [?item0] [] = ([?cut0], None)"
    by (simp add: first)
  have path: "dict_get ?item1 (input_key ?a)
                = Some (JList [JStr ''/data/a.wav'', JStr ''/data/c.wav''])"
    by (simp add: dict_get_def parse_args_def)
  have full: "get_full_path example_env (JList [JStr ''/data/a.wav'', JStr ''/data/c.wav''])
                (input ?a) = Inr (Paths [''/data/a.wav'', ''/data/c.wav''])"
    by (simp add: get_full_path_def example_env_def)
  from samplerate_mismatch_aborts[OF bad, of ?a "[?item0]" ?item1 "[?item2]" "[?cut0]"
         "JList [JStr ''/data/a.wav'', JStr ''/data/c.wav'']"]
       differ lines before path full
  have "create_recording example_env (Paths [''/data/a.wav'', ''/data/c.wav''])
          = Inl (AssertionError MismatchedSamplingRates) \<and>
        main ?a example_env = ([?cut0], Some (AssertionError MismatchedSamplingRates))"
    by blast
  moreover from samplerate_mismatch_aborts[OF good] agree
  have "create_recording example_env (Paths [''/data/a.wav'', ''/data/b.wav''])
          \<noteq> Inl (AssertionError MismatchedSamplingRates)"
    by blast
  ultimately show ?thesis
    using bad good by blast
qed

lemma same_samplerates_map:
  "map samplerate infs' = map samplerate infs \<Longrightarrow> same_samplerates infs' = same_samplerates infs"
proof -
  assume eq: "map samplerate infs' = map samplerate infs"
  have "\<And>xs. same_samplerates xs =
          list_all (\<lambda>x. x = hd (map samplerate xs)) (tl (map samplerate xs))"
    subgoal for xs
      by (cases xs) (simp_all add: same_samplerates_def list_all_iff)
    done
  with eq show ?thesis by simp
qed

text \<open>
  Claim C7. The sampling rate, the number of samples and the duration of a recording
  built from a list of paths are those of the first file. The other files' sample
  counts and durations are not used: in a file system that agrees on the first file,
  and on every file's sampling rate and channel count, the same recording is built.
\<close>

theorem multi_file_aggregates_first_file:
  assumes built: "create_recording ev (Paths ps) = Inr r"
    and probes: "map (info ev) ps = map Some infs"
  shows "infs \<noteq> [] \<and>
     sampling_rate r = samplerate (hd infs) \<and>
     num_samples r = frames (hd infs) \<and>
     rec_duration r = info_duration (hd infs) \<and>
     (map (info ev') ps = map Some infs' \<and> hd infs' = hd infs \<and>
      map samplerate infs' = map samplerate infs \<and>
      map channels infs' = map channels infs \<longrightarrow>
        create_recording ev' (Paths ps) = Inr r)"
proof -
  have len: "length infs = length ps"
    using probes by (metis length_map)
  from built have ok: "same_samplerates infs" "ps \<noteq> []" "last ps \<noteq> []"
    unfolding create_recording_multi[OF probes] by (simp_all split: if_splits)
  with len have ne: "infs \<noteq> []" by auto
  then have hd0: "infs ! 0 = hd infs" by (simp add: hd_conv_nth)
  from built ok have r: "r = \<lparr>rec_id = [hd (last ps)],
                sources = map (\<lambda>k. \<lparr>src_type = ''file'',
                   src_channels = [sum_list (take k (map channels infs)) ..<
                                   sum_list (take (Suc k) (map channels infs))],
                   source = ps ! k\<rparr>) [0 ..< length ps],
                sampling_rate = samplerate (infs ! 0),
                num_samples = frames (infs ! 0),
                rec_duration = info_duration (infs ! 0),
                channel_ids = [0 ..< sum_list (map channels infs)]\<rparr>"
    unfolding create_recording_multi[OF probes] by simp
  have other: "create_recording ev' (Paths ps) = Inr r"
    if probes': "map (info ev') ps = map Some infs'" and h: "hd infs' = hd infs"
      and s: "map samplerate infs' = map samplerate infs"
      and c: "map channels infs' = map channels infs"
  proof -
    have "length infs' = length ps"
      using probes' by (metis length_map)
    with ok have "infs' \<noteq> []" by auto
    then have "infs' ! 0 = hd infs'" by (simp add: hd_conv_nth)
    with h hd0 have "infs' ! 0 = infs ! 0" by simp
    then show ?thesis
      unfolding create_recording_multi[OF probes'] r
      using ok by (simp add: same_samplerates_map[OF s] c)
  qed
  from ne r hd0 other show ?thesis by simp
qed

text \<open>
  The second file's sample count and duration changed: the same recording.
\<close>

theorem multi_file_aggregates_first_file_witness:
  "create_recording example_env (Paths [''/data/a.wav'', ''/data/b.wav''])
     = Inr \<lparr>rec_id = ''/'',
            sources = [\<lparr>src_type = ''file'', src_channels = [0, 1], source = ''/data/a.wav''\<rparr>,
                       \<lparr>src_type = ''file'', src_channels = [2], source = ''/data/b.wav''\<rparr>],
            sampling_rate = 16000, num_samples = 32000, rec_duration = 2,
            channel_ids = [0, 1, 2]\<rparr> \<and>
   map (info example_env) [''/data/a.wav'', ''/data/b.wav''] =
     map Some [\<lparr>samplerate = 16000, frames = 32000, channels = 2, info_duration = 2\<rparr>,
               \<lparr>samplerate = 16000, frames = 8000, channels = 1, info_duration = 1 / 2\<rparr>] \<and>
   create_recording
     (example_env\<lparr>info := (info example_env)(''/data/b.wav'' :=
        Some \<lparr>samplerate = 16000, frames = 48000, channels = 1, info_duration = 3\<rparr>)\<rparr>)
     (Paths [''/data/a.wav'', ''/data/b.wav''])
     = Inr \<lparr>rec_id = ''/'',
            sources = [\<lparr>src_type = ''file'', src_channels = [0, 1], source = ''/data/a.wav''\<rparr>,
                       \<lparr>src_type = ''file'', src_channels = [2], source = ''/data/b.wav''\<rparr>],
            sampling_rate = 16000, num_samples = 32000, rec_duration = 2,
            channel_ids = [0, 1, 2]\<rparr>"
proof -
  let ?ps = "[''/data/a.wav'', ''/data/b.wav'']"
  let ?infs = "[\<lparr>samplerate = 16000, frames = 32000, channels = 2, info_duration = 2\<rparr>,
      \<lparr>samplerate = 16000, frames = 8000, channels = 1, info_duration = 1 / 2\<rparr>]"
  let ?infs' = "[\<lparr>samplerate = 16000, frames = 32000, channels = 2, info_duration = 2\<rparr>,
      \<lparr>samplerate = 16000, frames = 48000, channels = 1, info_duration = 3\<rparr>]"
  let ?ev' = "example_env\<lparr>info := (info example_env)(''/data/b.wav'' :=
        Some \<lparr>samplerate = 16000, frames = 48000, channels = 1, info_duration = 3\<rparr>)\<rparr>"
  let ?r = "\<lparr>rec_id = ''/'',
            sources = [\<lparr>src_type = ''file'', src_channels = [0, 1], source = ''/data/a.wav''\<rparr>,
                       \<lparr>src_type = ''file'', src_channels = [2], source = ''/data/b.wav''\<rparr>],
            sampling_rate = 16000, num_samples = 32000, rec_duration = 2,
            channel_ids = [0, 1, 2]\<rparr>"
  have built: "create_recording example_env (Paths ?ps) = Inr ?r"
    by (simp add: create_recording_def example_env_def same_samplerates_def
          loop_var_first_char_def upt_rec)
  have probes: "map (info example_env) ?ps = map Some ?infs"
    by (simp add: example_env_def)
  have probes': "map (info ?ev') ?ps = map Some ?infs'"
    by (simp add: example_env_def)
  from multi_file_aggregates_first_file[OF built probes, of ?ev' ?infs'] probes'
  have "create_recording ?ev' (Paths ?ps) = Inr ?r"
    by simp
  with built probes show ?thesis by blast
qed

text \<open>
  Claim C8. The identifier of a recording built from a list of paths is the first
  character of the last path of the list (\<^verbatim>\<open>p[0]\<close> on the loop variable): a string of
  length one, equal to no path of the list that is longer than one character.
\<close>

theorem multi_file_id_first_char_of_last_path:
  assumes built: "create_recording ev (Paths ps) = Inr r"
  shows "ps \<noteq> [] \<and> last ps \<noteq> [] \<and> rec_id r = [hd (last ps)] \<and>
         (\<forall>p\<in>set ps. 1 < length p \<longrightarrow> rec_id r \<noteq> p)"
proof -
  from built have "ps \<noteq> [] \<and> last ps \<noteq> [] \<and> rec_id r = [hd (last ps)]"
    by (auto simp: create_recording_def loop_var_first_char_def
          split: sum.splits prod.splits if_splits)
  then show ?thesis by auto
qed

text \<open>
  Two paths under \<^verbatim>\<open>/data\<close>: the identifier is the slash the last one starts with.
\<close>

theorem multi_file_id_first_char_of_last_path_witness:
  "create_recording example_env (Paths [''/data/a.wav'', ''/data/b.wav''])
     = Inr \<lparr>rec_id = ''/'',
            sources = [\<lparr>src_type = ''file'', src_channels = [0, 1], source = ''/data/a.wav''\<rparr>,
                       \<lparr>src_type = ''file'', src_channels = [2], source = ''/data/b.wav''\<rparr>],
            sampling_rate = 16000, num_samples = 32000, rec_duration = 2,
            channel_ids = [0, 1, 2]\<rparr> \<and>
   [hd (last [''/data/a.wav'', ''/data/b.wav''])] = ''/'' \<and>
   ''/'' \<noteq> ''/data/a.wav'' \<and> ''/'' \<noteq> ''/data/b.wav''"
proof -
  let ?ps = "[''/data/a.wav'', ''/data/b.wav'']"
  let ?r = "\<lparr>rec_id = ''/'',
            sources = [\<lparr>src_type = ''file'', src_channels = [0, 1], source = ''/data/a.wav''\<rparr>,
                       \<lparr>src_type = ''file'', src_channels = [2], source = ''/data/b.wav''\<rparr>],
            sampling_rate = 16000, num_samples = 32000, rec_duration = 2,
            channel_ids = [0, 1, 2]\<rparr>"
  have built: "create_recording example_env (Paths ?ps) = Inr ?r"
    by (simp add: create_recording_def example_env_def same_samplerates_def
          loop_var_first_char_def upt_rec)
  from multi_file_id_first_char_of_last_path[OF built] built
  show ?thesis by simp
qed

section \<open>Dictionaries and the fields a line loses\<close>

lemma keys_dict_del: "keys (dict_del d k) = keys d - {k}"
proof -
  have "set (map fst (AList.delete k d)) = set (map fst d) - {k}"
    by (simp only: delete_keys set_removeAll)
  then show ?thesis by (simp add: keys_def dict_del_def)
qed

lemma dict_get_dict_del:
  "dict_get (dict_del d k) k' = (if k' = k then None else dict_get d k')"
  by (simp add: dict_get_def dict_del_def delete_conv')

lemma is_dict_dict_del [simp]: "is_dict d \<Longrightarrow> is_dict (dict_del d k)"
  by (simp add: is_dict_def dict_del_def distinct_delete)

lemma dict_get_None_iff: "dict_get d k = None \<longleftrightarrow> k \<notin> keys d"
  by (simp add: dict_get_def keys_def map_of_eq_None_iff)

lemma dict_get_Some_keys: "dict_get d k = Some v \<Longrightarrow> k \<in> keys d"
  using dict_get_None_iff[of d k] by auto

lemma dict_in_iff: "dict_in k d \<longleftrightarrow> k \<in> keys d"
  by (simp add: dict_in_def dict_get_None_iff)


lemma merge_item_get:
  "is_dict item \<Longrightarrow>
   map_of (merge_item d item) k =
     (case dict_get item k of Some v \<Rightarrow> Some (CJson v) | None \<Rightarrow> map_of d k)"
proof (induction item arbitrary: d)
  case Nil
  then show ?case by (simp add: merge_item_def dict_get_def)
next
  case (Cons kv item)
  obtain k' v' where kv: "kv = (k', v')" by (cases kv)
  from Cons.prems have dist: "is_dict item" and fresh: "k' \<notin> keys item"
    by (auto simp: is_dict_def kv keys_def)
  have step: "merge_item d (kv # item) = merge_item (AList.update k' (CJson v') d) item"
    by (simp add: merge_item_def kv)
  from fresh have none: "dict_get item k' = None"
    by (simp add: dict_get_None_iff)
  show ?case
    unfolding step Cons.IH[OF dist]
    using none by (simp add: dict_get_def kv update_conv' split: option.splits)
qed

lemma custom_copy_remaining:
  assumes d: "is_dict rest" and k: "k \<in> keys rest"
    and ok: "copy_remaining (c, rest) = Inr ct"
  shows "custom_get ct k = map_option CJson (dict_get rest k)"
proof -
  from k obtain v where v: "dict_get rest k = Some v"
    using dict_get_None_iff[of rest k] by auto
  from k have ne: "rest \<noteq> []" by (auto simp: keys_def)
  from ok ne obtain m where "custom c = Some m" and "ct = c\<lparr>custom := Some (merge_item m rest)\<rparr>"
    by (auto simp: copy_remaining_def split: option.splits)
  then show ?thesis
    by (simp add: custom_get_def custom_fields_def merge_item_get[OF d] v)
qed

lemma and_then_Inr: "and_then m f = Inr y \<longleftrightarrow> (\<exists>x. m = Inr x \<and> f x = Inr y)"
  by (cases m) (simp_all add: and_then_def)

lemma and_then_Inl: "and_then m f = Inl e \<longleftrightarrow> m = Inl e \<or> (\<exists>x. m = Inr x \<and> f x = Inl e)"
  by (cases m) (simp_all add: and_then_def)

lemma stage_primary_rest:
  "stage_primary a ev item = Inr (c, rest) \<Longrightarrow>
   rest = dict_del (dict_del (dict_del item (input_key a)) ''duration'') ''offset'' \<and>
   input_key a \<in> keys item \<and> ''duration'' \<in> keys item - {input_key a}"
  by (auto simp: stage_primary_def dict_pop_def dict_get_dict_del dest: dict_get_Some_keys
        split: sum.splits option.splits prod.splits if_splits)

lemma stage_input_selector_rest:
  "stage_input_selector (c, item) = Inr (c', rest) \<Longrightarrow>
   rest = dict_del item INPUT_CHANNEL_SELECTOR"
  by (auto simp: stage_input_selector_def pop_selector_def
        split: sum.splits option.splits prod.splits if_splits)

lemma stage_target_rest:
  "stage_target a ev (c, item) = Inr (c', rest) \<Longrightarrow>
   rest = (if target_key a \<in> keys item
           then dict_del (dict_del item (target_key a)) TARGET_CHANNEL_SELECTOR else item)"
  by (auto simp: stage_target_def dict_pop_def pop_selector_def dict_in_iff
        split: sum.splits option.splits prod.splits if_splits)

lemma stage_reference_rest:
  "stage_reference a ev (c, item) = Inr (c', rest) \<Longrightarrow>
   rest = (if reference_key a \<in> keys item
           then dict_del (dict_del item (reference_key a)) REFERENCE_CHANNEL_SELECTOR else item)"
  by (auto simp: stage_reference_def dict_pop_def pop_selector_def dict_in_iff
        split: sum.splits option.splits prod.splits if_splits)

lemma stage_embedding_rest:
  "stage_embedding a ev (c, item) = Inr (c', rest) \<Longrightarrow>
   rest = (if embedding_key a \<in> keys item then dict_del item (embedding_key a) else item)"
  by (auto simp: stage_embedding_def dict_pop_def dict_in_iff
        split: sum.splits option.splits prod.splits if_splits path_or_paths.splits)


lemma consume_recordings_rest:
  assumes "consume_recordings a ev item = Inr (c, rest)"
  shows "\<exists>i2 i3.
     i2 = dict_del (dict_del (dict_del (dict_del item (input_key a)) ''duration'') ''offset'')
            INPUT_CHANNEL_SELECTOR \<and>
     i3 = (if target_key a \<in> keys i2
           then dict_del (dict_del i2 (target_key a)) TARGET_CHANNEL_SELECTOR else i2) \<and>
     rest = (if reference_key a \<in> keys i3
           then dict_del (dict_del i3 (reference_key a)) REFERENCE_CHANNEL_SELECTOR else i3) \<and>
     input_key a \<in> keys item \<and> ''duration'' \<in> keys item - {input_key a}"
proof -
  from assms obtain c1 r1 c2 r2 c3 r3 where
    1: "stage_primary a ev item = Inr (c1, r1)" and
    2: "stage_input_selector (c1, r1) = Inr (c2, r2)" and
    3: "stage_target a ev (c2, r2) = Inr (c3, r3)" and
    4: "stage_reference a ev (c3, r3) = Inr (c, rest)"
    unfolding consume_recordings_def and_then_Inr by auto
  from stage_primary_rest[OF 1] stage_input_selector_rest[OF 2]
       stage_target_rest[OF 3] stage_reference_rest[OF 4]
  show ?thesis by blast
qed

lemma consume_fields_rest:
  assumes "consume_fields a ev item = Inr (c, rest)"
  shows "\<exists>i2 i3 i4.
     i2 = dict_del (dict_del (dict_del (dict_del item (input_key a)) ''duration'') ''offset'')
            INPUT_CHANNEL_SELECTOR \<and>
     i3 = (if target_key a \<in> keys i2
           then dict_del (dict_del i2 (target_key a)) TARGET_CHANNEL_SELECTOR else i2) \<and>
     i4 = (if reference_key a \<in> keys i3
           then dict_del (dict_del i3 (reference_key a)) REFERENCE_CHANNEL_SELECTOR else i3) \<and>
     rest = (if embedding_key a \<in> keys i4 then dict_del i4 (embedding_key a) else i4) \<and>
     input_key a \<in> keys item \<and> ''duration'' \<in> keys item - {input_key a}"
proof -
  from assms obtain c4 r4 where
    1: "consume_recordings a ev item = Inr (c4, r4)" and
    2: "stage_embedding a ev (c4, r4) = Inr (c, rest)"
    unfolding consume_fields_def and_then_Inr by auto
  from consume_recordings_rest[OF 1] stage_embedding_rest[OF 2]
  show ?thesis by blast
qed


lemma consume_fields_get:
  assumes "consume_fields a ev item = Inr (c, rest)" and "k \<in> keys rest"
  shows "dict_get rest k = dict_get item k"
proof -
  from consume_fields_rest[OF assms(1)] obtain i2 i3 i4 where
    i2: "i2 = dict_del (dict_del (dict_del (dict_del item (input_key a)) ''duration'') ''offset'')
            INPUT_CHANNEL_SELECTOR" and
    i3: "i3 = (if target_key a \<in> keys i2
           then dict_del (dict_del i2 (target_key a)) TARGET_CHANNEL_SELECTOR else i2)" and
    i4: "i4 = (if reference_key a \<in> keys i3
           then dict_del (dict_del i3 (reference_key a)) REFERENCE_CHANNEL_SELECTOR else i3)" and
    rest: "rest = (if embedding_key a \<in> keys i4 then dict_del i4 (embedding_key a) else i4)"
    by blast
  have 4: "k \<in> keys i4 \<and> dict_get rest k = dict_get i4 k"
    using assms(2) by (auto simp: rest keys_dict_del dict_get_dict_del split: if_splits)
  then have 3: "k \<in> keys i3 \<and> dict_get i4 k = dict_get i3 k"
    by (auto simp: i4 keys_dict_del dict_get_dict_del split: if_splits)
  then have 2: "k \<in> keys i2 \<and> dict_get i3 k = dict_get i2 k"
    by (auto simp: i3 keys_dict_del dict_get_dict_del split: if_splits)
  then have "dict_get i2 k = dict_get item k"
    by (auto simp: i2 keys_dict_del dict_get_dict_del split: if_splits)
  with 2 3 4 show ?thesis by simp
qed


lemma consume_fields_is_dict:
  assumes "is_dict item" and "consume_fields a ev item = Inr (c, rest)"
  shows "is_dict rest"
proof -
  from consume_fields_rest[OF assms(2)] obtain i2 i3 i4 where
    i2: "i2 = dict_del (dict_del (dict_del (dict_del item (input_key a)) ''duration'') ''offset'')
            INPUT_CHANNEL_SELECTOR" and
    i3: "i3 = (if target_key a \<in> keys i2
           then dict_del (dict_del i2 (target_key a)) TARGET_CHANNEL_SELECTOR else i2)" and
    i4: "i4 = (if reference_key a \<in> keys i3
           then dict_del (dict_del i3 (reference_key a)) REFERENCE_CHANNEL_SELECTOR else i3)" and
    rest: "rest = (if embedding_key a \<in> keys i4 then dict_del i4 (embedding_key a) else i4)"
    by blast
  from assms(1) have "is_dict i2" by (simp add: i2)
  then have "is_dict i3" by (simp add: i3)
  then have "is_dict i4" by (simp add: i4)
  then show ?thesis by (simp add: rest)
qed

lemma consume_fields_keys:
  assumes dk: "distinct_keys a" and ok: "consume_fields a ev item = Inr (c, rest)"
  shows "keys rest = keys item - consumed_keys a item \<and> consumed_keys a item \<subseteq> keys item"
proof -
  from consume_fields_rest[OF ok] obtain i2 i3 i4 where
    i2: "i2 = dict_del (dict_del (dict_del (dict_del item (input_key a)) ''duration'') ''offset'')
            INPUT_CHANNEL_SELECTOR" and
    i3: "i3 = (if target_key a \<in> keys i2
           then dict_del (dict_del i2 (target_key a)) TARGET_CHANNEL_SELECTOR else i2)" and
    i4: "i4 = (if reference_key a \<in> keys i3
           then dict_del (dict_del i3 (reference_key a)) REFERENCE_CHANNEL_SELECTOR else i3)" and
    rest: "rest = (if embedding_key a \<in> keys i4 then dict_del i4 (embedding_key a) else i4)" and
    req: "input_key a \<in> keys item" "''duration'' \<in> keys item"
    by blast
  define K where "K = keys item"
  define T where "T = (if target_key a \<in> K then {target_key a, TARGET_CHANNEL_SELECTOR} else {})"
  define R where
    "R = (if reference_key a \<in> K then {reference_key a, REFERENCE_CHANNEL_SELECTOR} else {})"
  define E where "E = (if embedding_key a \<in> K then {embedding_key a} else {})"
  have k2: "keys i2 = K - {input_key a, ''duration'', ''offset'', INPUT_CHANNEL_SELECTOR}"
    unfolding i2 K_def keys_dict_del by blast
  have t: "target_key a \<in> keys i2 \<longleftrightarrow> target_key a \<in> K"
    using dk unfolding k2 distinct_keys_def by auto
  have k3: "keys i3 = keys i2 - T"
    unfolding i3 t T_def by (simp add: keys_dict_del) blast
  have r: "reference_key a \<in> keys i3 \<longleftrightarrow> reference_key a \<in> K"
    using dk unfolding k3 k2 T_def distinct_keys_def by auto
  have k4: "keys i4 = keys i3 - R"
    unfolding i4 r R_def by (simp add: keys_dict_del) blast
  have e: "embedding_key a \<in> keys i4 \<longleftrightarrow> embedding_key a \<in> K"
    using dk unfolding k4 k3 k2 T_def R_def distinct_keys_def by auto
  have k5: "keys rest = keys i4 - E"
    unfolding rest e E_def by (simp add: keys_dict_del)
  have cons: "consumed_keys a item \<inter> K =
      ({input_key a, ''duration'', ''offset'', INPUT_CHANNEL_SELECTOR} \<union> T \<union> R \<union> E) \<inter> K"
    unfolding consumed_keys_def K_def[symmetric] T_def R_def E_def by auto
  have sub: "consumed_keys a item \<subseteq> K"
    using req unfolding consumed_keys_def K_def by auto
  have "keys rest = K - (consumed_keys a item \<inter> K)"
    unfolding cons k5 k4 k3 k2 by blast
  then have "keys rest = K - consumed_keys a item" by blast
  with sub show ?thesis unfolding K_def by simp
qed

text \<open>
  Claim C1. For a line that converts (with the nine field names distinct and every key
  of the line held once), let \<open>rest\<close> be the item as it stands at line 137, the keys
  that line 138 copies. The keys the converter consumed and the keys of \<open>rest\<close> are
  disjoint, together they are the keys of the line, and every key of \<open>rest\<close> has in
  \<open>rest\<close>, and in the extension map of the cut written, the value it has in the line.
\<close>

theorem consumed_and_copied_partition:
  assumes dk: "distinct_keys a" and d: "is_dict item"
    and ok: "convert_item a ev item = Inr ct"
  shows "\<exists>c rest. consume_fields a ev item = Inr (c, rest) \<and>
           copy_remaining (c, rest) = Inr ct \<and>
           consumed_keys a item \<inter> keys rest = {} \<and>
           consumed_keys a item \<union> keys rest = keys item \<and>
           (\<forall>k\<in>keys rest.
              dict_get rest k = dict_get item k \<and>
              custom_get ct k = map_option CJson (dict_get item k))"
proof -
  from ok obtain c rest where cf: "consume_fields a ev item = Inr (c, rest)"
    and cp: "copy_remaining (c, rest) = Inr ct"
    unfolding convert_item_def and_then_Inr by auto
  from consume_fields_keys[OF dk cf]
  have 2: "consumed_keys a item \<inter> keys rest = {}"
    and 3: "consumed_keys a item \<union> keys rest = keys item"
    by blast+
  have 4: "dict_get rest k = dict_get item k \<and>
           custom_get ct k = map_option CJson (dict_get item k)"
    if "k \<in> keys rest" for k
    using consume_fields_get[OF cf that]
      custom_copy_remaining[OF consume_fields_is_dict[OF d cf] that cp]
    by simp
  from cf cp 2 3 4 show ?thesis by blast
qed

lemmas selector_names =
  INPUT_CHANNEL_SELECTOR_def TARGET_CHANNEL_SELECTOR_def REFERENCE_CHANNEL_SELECTOR_def
  LHOTSE_TARGET_CHANNEL_SELECTOR_def LHOTSE_REFERENCE_CHANNEL_SELECTOR_def

lemmas run_stages =
  convert_item_def consume_fields_def consume_recordings_def and_then_def
  stage_input_selector_def stage_target_def stage_reference_def stage_embedding_def
  copy_remaining_def dict_pop_def dict_get_def dict_del_def dict_in_def pop_selector_def
  merge_item_def get_full_path_def create_recording_def create_array_def
  with_channels_def with_custom_def set_custom_attr_def custom_fields_def assert_single_def
  cut_num_channels_def rec_num_channels_def endswith_def os_path_split_def selector_names

lemmas run_primary =
  dict_get_def dict_del_def get_full_path_def create_recording_def os_path_split_def
  compute_num_samples_def round_half_up_numeral round_half_up_zero uuid4_def to_cut_def

lemma distinct_keys_parse_args: "distinct_keys (parse_args inp outp)"
  by (simp add: distinct_keys_def parse_args_def selector_names)

text \<open>
  A line with a target recording, its selector and the extra field \<open>speaker\<close>: the
  extension map of the cut holds the target recording and that field.
\<close>

theorem consumed_and_copied_partition_witness:
  "distinct_keys (parse_args ''/data/manifest.json'' ''/data/out.jsonl'') \<and>
   is_dict [(''audio_filepath'', JStr ''/data/a.wav''), (''speaker'', JStr ''A''),
            (''duration'', JInt 1), (''target_filepath'', JStr ''/data/b.wav''),
            (''target_channel_selector'', JList [JInt 0])] \<and>
   convert_item (parse_args ''/data/manifest.json'' ''/data/out.jsonl'') example_env
     [(''audio_filepath'', JStr ''/data/a.wav''), (''speaker'', JStr ''A''),
      (''duration'', JInt 1), (''target_filepath'', JStr ''/data/b.wav''),
      (''target_channel_selector'', JList [JInt 0])]
   = Inr \<lparr>cut_id = ''id-i'', start = 0, cut_duration = 1, channel = [0, 1],
       recording = \<lparr>rec_id = ''a'', sources = [\<lparr>src_type = ''file'', src_channels = [0, 1],
          source = ''/data/a.wav''\<rparr>], sampling_rate = 16000, num_samples = 32000,
          rec_duration = 2, channel_ids = [0, 1]\<rparr>,
       custom = Some [(''target_recording'', CRecording \<lparr>rec_id = ''b'',
          sources = [\<lparr>src_type = ''file'', src_channels = [0], source = ''/data/b.wav''\<rparr>],
          sampling_rate = 16000, num_samples = 8000, rec_duration = 1 / 2,
          channel_ids = [0]\<rparr>), (''speaker'', CJson (JStr ''A''))]\<rparr> \<and>
   consumed_keys (parse_args ''/data/manifest.json'' ''/data/out.jsonl'')
     [(''audio_filepath'', JStr ''/data/a.wav''), (''speaker'', JStr ''A''),
      (''duration'', JInt 1), (''target_filepath'', JStr ''/data/b.wav''),
      (''target_channel_selector'', JList [JInt 0])] \<inter> {''speaker''} = {} \<and>
   consumed_keys (parse_args ''/data/manifest.json'' ''/data/out.jsonl'')
     [(''audio_filepath'', JStr ''/data/a.wav''), (''speaker'', JStr ''A''),
      (''duration'', JInt 1), (''target_filepath'', JStr ''/data/b.wav''),
      (''target_channel_selector'', JList [JInt 0])] \<union> {''speaker''}
   = {''audio_filepath'', ''speaker'', ''duration'', ''target_filepath'',
      ''target_channel_selector''}"
proof -
  let ?a = "parse_args ''/data/manifest.json'' ''/data/out.jsonl''"
  let ?item = "[(''audio_filepath'', JStr ''/data/a.wav''), (''speaker'', JStr ''A''),
      (''duration'', JInt 1), (''target_filepath'', JStr ''/data/b.wav''),
      (''target_channel_selector'', JList [JInt 0])]"
  let ?rb = "\<lparr>rec_id = ''b'',
          sources = [\<lparr>src_type = ''file'', src_channels = [0], source = ''/data/b.wav''\<rparr>],
          sampling_rate = 16000, num_samples = 8000, rec_duration = 1 / 2,
          channel_ids = [0]\<rparr>"
  let ?bare = "\<lparr>cut_id = ''id-i'', start = 0, cut_duration = 1, channel = [0, 1],
       recording = \<lparr>rec_id = ''a'', sources = [\<lparr>src_type = ''file'', src_channels = [0, 1],
          source = ''/data/a.wav''\<rparr>], sampling_rate = 16000, num_samples = 32000,
          rec_duration = 2, channel_ids = [0, 1]\<rparr>,
       custom = None\<rparr>"
  let ?cx = "?bare\<lparr>custom := Some [(''target_recording'', CRecording ?rb)]\<rparr>"
  let ?ct = "?bare\<lparr>custom := Some [(''target_recording'', CRecording ?rb),
                                    (''speaker'', CJson (JStr ''A''))]\<rparr>"
  have dk: "distinct_keys ?a"
    by (rule distinct_keys_parse_args)
  have d: "is_dict ?item"
    by (simp add: is_dict_def)
  have prim: "stage_primary ?a example_env ?item
      = Inr (?bare, [(''speaker'', JStr ''A''), (''target_filepath'', JStr ''/data/b.wav''),
                   (''target_channel_selector'', JList [JInt 0])])"
    using stage_primary_slice[of ?item ?a "JStr ''/data/a.wav''" example_env
        "Path ''/data/a.wav''" "recording ?bare" "JInt 1" 1 0]
    by (simp add: run_primary parse_args_def example_env_def)
  have cf: "consume_fields ?a example_env ?item = Inr (?cx, [(''speaker'', JStr ''A'')])"
    unfolding consume_fields_def consume_recordings_def prim
    by (simp add: run_stages parse_args_def example_env_def)
  have ok: "convert_item ?a example_env ?item = Inr ?ct"
    by (simp add: convert_item_def and_then_def cf copy_remaining_def merge_item_def)
  from consumed_and_copied_partition[OF dk d ok] cf
  have "consumed_keys ?a ?item \<inter> keys [(''speaker'', JStr ''A'')] = {} \<and>
        consumed_keys ?a ?item \<union> keys [(''speaker'', JStr ''A'')] = keys ?item"
    by auto
  moreover have "keys [(''speaker'', JStr ''A'')] = {''speaker''}" "keys ?item =
    {''audio_filepath'', ''speaker'', ''duration'', ''target_filepath'',
      ''target_channel_selector''}"
    by (simp_all add: keys_def)
  ultimately show ?thesis
    using dk d ok by simp
qed

section \<open>Errors of the stages\<close>

lemma probe_loop_error: "probe_loop ev ps st = Inl e \<Longrightarrow> e = OSError"
proof (induction ps arbitrary: st)
  case Nil
  then show ?case by simp
next
  case (Cons p ps)
  obtain cur srcs infos where st: "st = (cur, srcs, infos)" by (cases st) auto
  from Cons show ?case
    by (auto simp: st split: option.splits)
qed

lemma create_recording_error:
  "create_recording ev pp = Inl e \<Longrightarrow>
   e \<in> {OSError, AssertionError MismatchedSamplingRates, UnboundLocalError, IndexError}"
  by (auto simp: create_recording_def loop_var_first_char_def dest: probe_loop_error
        split: path_or_paths.splits sum.splits prod.splits if_splits option.splits)

lemma get_full_path_error: "get_full_path ev v m = Inl e \<Longrightarrow> e = ValueError"
  by (auto simp: get_full_path_def split: json.splits option.splits)

lemma as_number_error: "as_number v = Inl e \<Longrightarrow> e = TypeError"
  by (cases v) auto

lemma add_durations_error: "add_durations ds sr = Inl e \<Longrightarrow> e = ZeroDivisionError"
  by (auto simp: add_durations_def split: if_splits)

lemma truncate_error:
  "truncate ev c d off = Inl e \<Longrightarrow>
   e \<in> {TypeError, ZeroDivisionError, AssertionError NegativeOffset,
        AssertionError NonPositiveDuration}"
proof (cases "sampling_rate (recording c) = 0")
  case True
  assume "truncate ev c d off = Inl e"
  with True show ?thesis
    by (auto simp: truncate_def Let_def and_then_def add_durations_def
          dest!: as_number_error split: sum.splits if_splits)
next
  case False
  assume "truncate ev c d off = Inl e"
  with False show ?thesis
    by (auto simp: truncate_def Let_def and_then_def add_durations_def
          dest!: as_number_error split: sum.splits if_splits)
qed

lemma py_len_error: "py_len v = Inl e \<Longrightarrow> e = TypeError"
  by (cases v) auto

lemma assert_single_error:
  "assert_single k v = Inl e \<Longrightarrow> e = TypeError \<or> e = AssertionError (SingleChannelSelector k)"
  by (auto simp: assert_single_def dest: py_len_error split: sum.splits if_splits)

lemma with_channels_error:
  "with_channels c v = Inl e \<Longrightarrow> e = TypeError \<or> e = AssertionError ChannelsNotInRecording"
  by (auto simp: with_channels_def split: option.splits if_splits)

lemma copy_remaining_error: "copy_remaining st = Inl e \<Longrightarrow> e = AttributeError"
  by (cases st) (auto simp: copy_remaining_def split: if_splits option.splits)

lemma stage_primary_error:
  "stage_primary a ev item = Inl e \<Longrightarrow> e \<noteq> AssertionError (SingleChannelSelector k)"
  by (auto simp: stage_primary_def dict_pop_def
        dest!: create_recording_error get_full_path_error truncate_error
        split: sum.splits option.splits prod.splits)

lemma stage_input_selector_error:
  "stage_input_selector st = Inl (AssertionError (SingleChannelSelector k)) \<Longrightarrow>
   k = INPUT_CHANNEL_SELECTOR"
  by (auto simp: stage_input_selector_def
        dest!: assert_single_error with_channels_error
        split: sum.splits option.splits prod.splits if_splits)

lemma stage_target_error:
  "stage_target a ev st = Inl (AssertionError (SingleChannelSelector k)) \<Longrightarrow>
   k = TARGET_CHANNEL_SELECTOR"
  by (auto simp: stage_target_def dict_pop_def
        dest!: assert_single_error create_recording_error get_full_path_error
        split: sum.splits option.splits prod.splits if_splits)

lemma stage_reference_error:
  "stage_reference a ev st = Inl (AssertionError (SingleChannelSelector k)) \<Longrightarrow>
   k = REFERENCE_CHANNEL_SELECTOR"
  by (auto simp: stage_reference_def dict_pop_def
        dest!: assert_single_error create_recording_error get_full_path_error
        split: sum.splits option.splits prod.splits if_splits)

lemma stage_embedding_error:
  "stage_embedding a ev st = Inl e \<Longrightarrow> e \<noteq> AssertionError (SingleChannelSelector k)"
  by (auto simp: stage_embedding_def dict_pop_def create_array_def
        dest!: get_full_path_error
        split: sum.splits option.splits prod.splits if_splits path_or_paths.splits)

lemma stage_target_skip:
  "target_key a \<notin> keys item \<Longrightarrow> stage_target a ev (c, item) = Inr (c, item)"
  by (simp add: stage_target_def dict_in_iff)

lemma stage_reference_skip:
  "reference_key a \<notin> keys item \<Longrightarrow> stage_reference a ev (c, item) = Inr (c, item)"
  by (simp add: stage_reference_def dict_in_iff)

lemma stage_primary_keys:
  "stage_primary a ev item = Inr (c, rest) \<Longrightarrow> keys rest \<subseteq> keys item"
  by (auto dest!: stage_primary_rest simp: keys_dict_del)

lemma stage_input_selector_keys:
  "stage_input_selector (c, item) = Inr (c', rest) \<Longrightarrow> keys rest \<subseteq> keys item"
  by (auto dest!: stage_input_selector_rest simp: keys_dict_del)

lemma stage_target_keys:
  "stage_target a ev (c, item) = Inr (c', rest) \<Longrightarrow> keys rest \<subseteq> keys item"
  by (auto dest!: stage_target_rest simp: keys_dict_del split: if_splits)


section \<open>Channel selectors\<close>

lemma convert_item_Inr:
  "convert_item a ev item = Inr ct \<longleftrightarrow>
   (\<exists>c rest. consume_fields a ev item = Inr (c, rest) \<and> copy_remaining (c, rest) = Inr ct)"
  by (auto simp: convert_item_def and_then_Inr)

lemma convert_item_selector_error:
  assumes err: "convert_item a ev item = Inl (AssertionError (SingleChannelSelector k))"
  shows "k = INPUT_CHANNEL_SELECTOR \<or>
         (k = TARGET_CHANNEL_SELECTOR \<and> target_key a \<in> keys item) \<or>
         (k = REFERENCE_CHANNEL_SELECTOR \<and> reference_key a \<in> keys item)"
proof -
  let ?e = "AssertionError (SingleChannelSelector k)"
  from err have cf: "consume_fields a ev item = Inl ?e"
    by (auto simp: convert_item_def and_then_Inl dest: copy_remaining_error)
  then consider
      (rec) "consume_recordings a ev item = Inl ?e"
    | (emb) st where "stage_embedding a ev st = Inl ?e"
    by (auto simp: consume_fields_def and_then_Inl)
  then show ?thesis
  proof cases
    case emb
    then show ?thesis using stage_embedding_error by blast
  next
    case rec
    then consider
        (p) "stage_primary a ev item = Inl ?e"
      | (i) c1 r1 where "stage_primary a ev item = Inr (c1, r1)"
          "stage_input_selector (c1, r1) = Inl ?e"
      | (t) c1 r1 c2 r2 where "stage_primary a ev item = Inr (c1, r1)"
          "stage_input_selector (c1, r1) = Inr (c2, r2)" "stage_target a ev (c2, r2) = Inl ?e"
      | (r) c1 r1 c2 r2 c3 r3 where "stage_primary a ev item = Inr (c1, r1)"
          "stage_input_selector (c1, r1) = Inr (c2, r2)"
          "stage_target a ev (c2, r2) = Inr (c3, r3)" "stage_reference a ev (c3, r3) = Inl ?e"
      unfolding consume_recordings_def and_then_Inl and_then_Inr by fastforce
    then show ?thesis
    proof cases
      case p
      then show ?thesis using stage_primary_error by blast
    next
      case i
      then show ?thesis using stage_input_selector_error by blast
    next
      case t
      from t(3) have k: "k = TARGET_CHANNEL_SELECTOR" by (rule stage_target_error)
      have "target_key a \<in> keys r2"
        using t(3) stage_target_skip[of a r2 ev c2] by auto
      with stage_primary_keys[OF t(1)] stage_input_selector_keys[OF t(2)] k
      show ?thesis by blast
    next
      case r
      from r(4) have k: "k = REFERENCE_CHANNEL_SELECTOR" by (rule stage_reference_error)
      have "reference_key a \<in> keys r3"
        using r(4) stage_reference_skip[of a r3 ev c3] by auto
      with stage_primary_keys[OF r(1)] stage_input_selector_keys[OF r(2)]
        stage_target_keys[OF r(3)] k
      show ?thesis by blast
    qed
  qed
qed

lemma selector_names_distinct:
  "TARGET_CHANNEL_SELECTOR \<noteq> INPUT_CHANNEL_SELECTOR"
  "REFERENCE_CHANNEL_SELECTOR \<noteq> INPUT_CHANNEL_SELECTOR"
  "TARGET_CHANNEL_SELECTOR \<noteq> REFERENCE_CHANNEL_SELECTOR"
  by (simp_all add: selector_names)

lemma copied_when_not_consumed:
  assumes dk: "distinct_keys a" and d: "is_dict item"
    and v: "dict_get item k = Some v" and k: "k \<notin> consumed_keys a item"
    and ok: "convert_item a ev item = Inr ct"
  shows "custom_get ct k = Some (CJson v)"
proof -
  from ok obtain c rest where cf: "consume_fields a ev item = Inr (c, rest)"
    and cp: "copy_remaining (c, rest) = Inr ct"
    unfolding convert_item_Inr by blast
  from v have "k \<in> keys item" by (rule dict_get_Some_keys)
  with k consume_fields_keys[OF dk cf] have kr: "k \<in> keys rest" by blast
  from custom_copy_remaining[OF consume_fields_is_dict[OF d cf] kr cp]
    consume_fields_get[OF cf kr] v
  show ?thesis by simp
qed

text \<open>
  A selector whose path is missing is not looked at: the conversion never fails with the
  assertion on it, and a cut that is written has it in its extension map.
\<close>

lemma orphan_selector_kept:
  assumes dk: "distinct_keys a" and d: "is_dict item"
  shows "(dict_get item TARGET_CHANNEL_SELECTOR = Some v \<and> target_key a \<notin> keys item \<longrightarrow>
            convert_item a ev item
              \<noteq> Inl (AssertionError (SingleChannelSelector TARGET_CHANNEL_SELECTOR)) \<and>
            (\<forall>ct. convert_item a ev item = Inr ct \<longrightarrow>
               custom_get ct TARGET_CHANNEL_SELECTOR = Some (CJson v))) \<and>
         (dict_get item REFERENCE_CHANNEL_SELECTOR = Some v \<and> reference_key a \<notin> keys item \<longrightarrow>
            convert_item a ev item
              \<noteq> Inl (AssertionError (SingleChannelSelector REFERENCE_CHANNEL_SELECTOR)) \<and>
            (\<forall>ct. convert_item a ev item = Inr ct \<longrightarrow>
               custom_get ct REFERENCE_CHANNEL_SELECTOR = Some (CJson v)))"
proof (intro conjI impI allI)
  assume h: "dict_get item TARGET_CHANNEL_SELECTOR = Some v \<and> target_key a \<notin> keys item"
  show "convert_item a ev item
          \<noteq> Inl (AssertionError (SingleChannelSelector TARGET_CHANNEL_SELECTOR))"
    using convert_item_selector_error[of a ev item TARGET_CHANNEL_SELECTOR] h
      selector_names_distinct by auto
  have "TARGET_CHANNEL_SELECTOR \<notin> consumed_keys a item"
    using dk h unfolding consumed_keys_def distinct_keys_def by auto
  then show "custom_get ct TARGET_CHANNEL_SELECTOR = Some (CJson v)"
    if "convert_item a ev item = Inr ct" for ct
    using copied_when_not_consumed[OF dk d _ _ that] h by blast
next
  assume h: "dict_get item REFERENCE_CHANNEL_SELECTOR = Some v \<and> reference_key a \<notin> keys item"
  show "convert_item a ev item
          \<noteq> Inl (AssertionError (SingleChannelSelector REFERENCE_CHANNEL_SELECTOR))"
    using convert_item_selector_error[of a ev item REFERENCE_CHANNEL_SELECTOR] h
      selector_names_distinct by auto
  have "REFERENCE_CHANNEL_SELECTOR \<notin> consumed_keys a item"
    using dk h unfolding consumed_keys_def distinct_keys_def by auto
  then show "custom_get ct REFERENCE_CHANNEL_SELECTOR = Some (CJson v)"
    if "convert_item a ev item = Inr ct" for ct
    using copied_when_not_consumed[OF dk d _ _ that] h by blast
qed

text \<open>
  Claim C10. A line that has the target channel selector but no target path, and
  nothing else beyond the primary path and the duration. The selector is neither
  checked nor removed: it is what is left of the item at line 137. Nothing was assigned
  to the cut, so the cut has no extension map, and line 138 fails with
  \<^verbatim>\<open>AttributeError\<close> instead of copying the selector: no cut is written. The comment of
  line 138 says that any field still left goes to the custom fields.
\<close>

theorem orphan_selector_not_copied:
  "consume_fields (parse_args ''/data/manifest.json'' ''/data/out.jsonl'') example_env
     [(''audio_filepath'', JStr ''/data/b.wav''), (''duration'', JFloat (1 / 4)),
      (''target_channel_selector'', JList [JInt 0, JInt 1])]
   = Inr (\<lparr>cut_id = ''id-i'', start = 0, cut_duration = 1 / 4, channel = [0],
            recording = \<lparr>rec_id = ''b'', sources = [\<lparr>src_type = ''file'',
               src_channels = [0], source = ''/data/b.wav''\<rparr>], sampling_rate = 16000,
               num_samples = 8000, rec_duration = 1 / 2, channel_ids = [0]\<rparr>,
            custom = None\<rparr>,
          [(''target_channel_selector'', JList [JInt 0, JInt 1])]) \<and>
   convert_item (parse_args ''/data/manifest.json'' ''/data/out.jsonl'') example_env
     [(''audio_filepath'', JStr ''/data/b.wav''), (''duration'', JFloat (1 / 4)),
      (''target_channel_selector'', JList [JInt 0, JInt 1])]
   = Inl AttributeError \<and>
   main_loop (parse_args ''/data/manifest.json'' ''/data/out.jsonl'') example_env
     [[(''audio_filepath'', JStr ''/data/b.wav''), (''duration'', JFloat (1 / 4)),
       (''target_channel_selector'', JList [JInt 0, JInt 1])]] []
   = ([], Some AttributeError)"
proof -
  let ?a = "parse_args ''/data/manifest.json'' ''/data/out.jsonl''"
  let ?item = "[(''audio_filepath'', JStr ''/data/b.wav''), (''duration'', JFloat (1 / 4)),
      (''target_channel_selector'', JList [JInt 0, JInt 1])]"
  let ?bare = "\<lparr>cut_id = ''id-i'', start = 0, cut_duration = 1 / 4, channel = [0],
            recording = \<lparr>rec_id = ''b'', sources = [\<lparr>src_type = ''file'',
               src_channels = [0], source = ''/data/b.wav''\<rparr>], sampling_rate = 16000,
               num_samples = 8000, rec_duration = 1 / 2, channel_ids = [0]\<rparr>,
            custom = None\<rparr>"
  have prim: "stage_primary ?a example_env ?item
      = Inr (?bare, [(''target_channel_selector'', JList [JInt 0, JInt 1])])"
    using stage_primary_slice[of ?item ?a "JStr ''/data/b.wav''" example_env
        "Path ''/data/b.wav''" "recording ?bare" "JFloat (1 / 4)" "1 / 4" 0]
    by (simp add: run_primary parse_args_def example_env_def)
  have cf: "consume_fields ?a example_env ?item
      = Inr (?bare, [(''target_channel_selector'', JList [JInt 0, JInt 1])])"
    unfolding consume_fields_def consume_recordings_def prim
    by (simp add: run_stages parse_args_def example_env_def)
  have fails: "convert_item ?a example_env ?item = Inl AttributeError"
    by (simp add: convert_item_def and_then_def cf copy_remaining_def)
  from cf fails show ?thesis by simp
qed

lemma dict_del_idem: "dict_del (dict_del d k) k = dict_del d k"
  by (simp add: dict_del_def delete_idem)

lemma stage_primary_del:
  assumes k: "k \<noteq> input_key a" "k \<noteq> ''duration''" "k \<noteq> ''offset''"
    and ok: "stage_primary a ev item = Inr (c, rest)"
  shows "stage_primary a ev (dict_del item k) = Inr (c, dict_del rest k)"
proof -
  from ok obtain v pp r d where
    1: "dict_get item (input_key a) = Some v" and
    2: "get_full_path ev v (input a) = Inr pp" and
    3: "create_recording ev pp = Inr r" and
    4: "dict_get (dict_del item (input_key a)) ''duration'' = Some d" and
    5: "truncate ev (to_cut r) d
          (case dict_get (dict_del (dict_del item (input_key a)) ''duration'') ''offset'' of
             None \<Rightarrow> JFloat 0 | Some off \<Rightarrow> off) = Inr c" and
    6: "rest = dict_del (dict_del (dict_del item (input_key a)) ''duration'') ''offset''"
    by (auto simp: stage_primary_def dict_pop_def split: sum.splits option.splits prod.splits)
  have p1: "dict_get (dict_del item k) (input_key a) = Some v"
    using 1 k by (simp add: dict_get_dict_del)
  have p4: "dict_get (dict_del (dict_del item k) (input_key a)) ''duration'' = Some d"
    using 4 k by (simp add: dict_get_dict_del split: if_splits)
  have p5: "dict_get (dict_del (dict_del (dict_del item k) (input_key a)) ''duration'') ''offset''
          = dict_get (dict_del (dict_del item (input_key a)) ''duration'') ''offset''"
    using k by (simp add: dict_get_dict_del)
  have p6: "dict_del (dict_del (dict_del (dict_del item k) (input_key a)) ''duration'') ''offset''
          = dict_del rest k"
    unfolding 6 dict_del_def by (metis delete_twist)
  show ?thesis
    by (simp add: stage_primary_def dict_pop_def p1 2 3 p4 p5 5 p6)
qed

lemma stage_primary_get:
  assumes k: "k \<noteq> input_key a" "k \<noteq> ''duration''" "k \<noteq> ''offset''"
    and ok: "stage_primary a ev item = Inr (c, rest)"
  shows "dict_get rest k = dict_get item k"
  using stage_primary_rest[OF ok] k by (simp add: dict_get_dict_del)

lemma py_len_not_null: "py_len v = Inr n \<Longrightarrow> v \<noteq> JNull"
  by auto

text \<open>
  Claim C9. A line whose primary recording has one channel and whose input channel
  selector has length one: line 100 removes the selector and leaves the cut as it is,
  and the line converts to exactly what it converts to without the selector.
\<close>

theorem single_channel_selector_ignored:
  assumes ne: "input_key a \<noteq> INPUT_CHANNEL_SELECTOR"
    and sel: "dict_get item INPUT_CHANNEL_SELECTOR = Some chans"
    and len: "py_len chans = Inr 1"
    and prim: "stage_primary a ev item = Inr (c, rest)"
    and single: "cut_num_channels c = 1"
  shows "stage_input_selector (c, rest) = Inr (c, dict_del rest INPUT_CHANNEL_SELECTOR) \<and>
         convert_item a ev item = convert_item a ev (dict_del item INPUT_CHANNEL_SELECTOR)"
proof -
  have k: "INPUT_CHANNEL_SELECTOR \<noteq> input_key a" "INPUT_CHANNEL_SELECTOR \<noteq> ''duration''"
    "INPUT_CHANNEL_SELECTOR \<noteq> ''offset''"
    using ne by (auto simp: selector_names)
  have here: "dict_get rest INPUT_CHANNEL_SELECTOR = Some chans"
    using stage_primary_get[OF k prim] sel by simp
  have with_sel: "stage_input_selector (c, rest) = Inr (c, dict_del rest INPUT_CHANNEL_SELECTOR)"
    using py_len_not_null[OF len]
    by (simp add: stage_input_selector_def pop_selector_def here single assert_single_def len)
  have without: "stage_input_selector (c, dict_del rest INPUT_CHANNEL_SELECTOR)
                   = Inr (c, dict_del rest INPUT_CHANNEL_SELECTOR)"
    by (simp add: stage_input_selector_def pop_selector_def dict_get_dict_del dict_del_idem)
  have "convert_item a ev item = convert_item a ev (dict_del item INPUT_CHANNEL_SELECTOR)"
    by (simp add: convert_item_def consume_fields_def consume_recordings_def
          stage_primary_del[OF k prim] prim and_then_def with_sel without)
  with with_sel show ?thesis by simp
qed


text \<open>
  A one-channel file with the selector \<open>[0]\<close>.
\<close>

theorem single_channel_selector_ignored_witness:
  "stage_primary (parse_args ''/data/manifest.json'' ''/data/out.jsonl'') example_env
     [(''audio_filepath'', JStr ''/data/b.wav''), (''duration'', JFloat (1 / 4)),
      (''input_channel_selector'', JList [JInt 0])]
   = Inr (\<lparr>cut_id = ''id-i'', start = 0, cut_duration = 1 / 4, channel = [0],
       recording = \<lparr>rec_id = ''b'', sources = [\<lparr>src_type = ''file'', src_channels = [0],
          source = ''/data/b.wav''\<rparr>], sampling_rate = 16000, num_samples = 8000,
          rec_duration = 1 / 2, channel_ids = [0]\<rparr>,
       custom = None\<rparr>, [(''input_channel_selector'', JList [JInt 0])]) \<and>
   py_len (JList [JInt 0]) = Inr 1 \<and>
   convert_item (parse_args ''/data/manifest.json'' ''/data/out.jsonl'') example_env
     [(''audio_filepath'', JStr ''/data/b.wav''), (''duration'', JFloat (1 / 4)),
      (''input_channel_selector'', JList [JInt 0])]
   = convert_item (parse_args ''/data/manifest.json'' ''/data/out.jsonl'') example_env
     [(''audio_filepath'', JStr ''/data/b.wav''), (''duration'', JFloat (1 / 4))] \<and>
   convert_item (parse_args ''/data/manifest.json'' ''/data/out.jsonl'') example_env
     [(''audio_filepath'', JStr ''/data/b.wav''), (''duration'', JFloat (1 / 4))]
   = Inr \<lparr>cut_id = ''id-i'', start = 0, cut_duration = 1 / 4, channel = [0],
       recording = \<lparr>rec_id = ''b'', sources = [\<lparr>src_type = ''file'', src_channels = [0],
          source = ''/data/b.wav''\<rparr>], sampling_rate = 16000, num_samples = 8000,
          rec_duration = 1 / 2, channel_ids = [0]\<rparr>,
       custom = None\<rparr>"
proof -
  let ?a = "parse_args ''/data/manifest.json'' ''/data/out.jsonl''"
  let ?item = "[(''audio_filepath'', JStr ''/data/b.wav''), (''duration'', JFloat (1 / 4)),
      (''input_channel_selector'', JList [JInt 0])]"
  let ?plain = "[(''audio_filepath'', JStr ''/data/b.wav''), (''duration'', JFloat (1 / 4))]"
  let ?bare = "\<lparr>cut_id = ''id-i'', start = 0, cut_duration = 1 / 4, channel = [0],
       recording = \<lparr>rec_id = ''b'', sources = [\<lparr>src_type = ''file'', src_channels = [0],
          source = ''/data/b.wav''\<rparr>], sampling_rate = 16000, num_samples = 8000,
          rec_duration = 1 / 2, channel_ids = [0]\<rparr>,
       custom = None\<rparr>"
  have ne: "input_key ?a \<noteq> INPUT_CHANNEL_SELECTOR"
    by (simp add: parse_args_def selector_names)
  have sel: "dict_get ?item INPUT_CHANNEL_SELECTOR = Some (JList [JInt 0])"
    by (simp add: dict_get_def selector_names)
  have len: "py_len (JList [JInt 0]) = Inr 1"
    by simp
  have prim: "stage_primary ?a example_env ?item
                = Inr (?bare, [(''input_channel_selector'', JList [JInt 0])])"
    using stage_primary_slice[of ?item ?a "JStr ''/data/b.wav''" example_env
        "Path ''/data/b.wav''" "recording ?bare" "JFloat (1 / 4)" "1 / 4" 0]
    by (simp add: run_primary parse_args_def example_env_def)
  have single: "cut_num_channels ?bare = 1"
    by (simp add: cut_num_channels_def)
  have del: "dict_del ?item INPUT_CHANNEL_SELECTOR = ?plain"
    by (simp add: dict_del_def selector_names)
  have prim': "stage_primary ?a example_env ?plain = Inr (?bare, [])"
    using stage_primary_slice[of ?plain ?a "JStr ''/data/b.wav''" example_env
        "Path ''/data/b.wav''" "recording ?bare" "JFloat (1 / 4)" "1 / 4" 0]
    by (simp add: run_primary parse_args_def example_env_def)
  have plain: "convert_item ?a example_env ?plain = Inr ?bare"
    unfolding convert_item_def consume_fields_def consume_recordings_def prim'
    by (simp add: run_stages parse_args_def example_env_def)
  from single_channel_selector_ignored[OF ne sel len prim single] prim len plain
  show ?thesis
    unfolding del by simp
qed

lemma truncate_keeps:
  "truncate ev c d off = Inr c' \<Longrightarrow>
   channel c' = channel c \<and> recording c' = recording c \<and> custom c' = custom c"
proof (cases "sampling_rate (recording c) = 0")
  case True
  assume "truncate ev c d off = Inr c'"
  with True show ?thesis
    by (auto simp: truncate_def Let_def and_then_def add_durations_def
          split: sum.splits if_splits)
next
  case False
  assume "truncate ev c d off = Inr c'"
  with False show ?thesis
    by (auto simp: truncate_def Let_def and_then_def add_durations_def
          split: sum.splits if_splits)
qed

lemma stage_primary_channels:
  "stage_primary a ev item = Inr (c, rest) \<Longrightarrow>
   channel c = channel_ids (recording c) \<and> custom c = None"
  by (auto simp: stage_primary_def dict_pop_def to_cut_def dest!: truncate_keeps
        split: sum.splits option.splits prod.splits)

lemma stage_target_channel:
  "stage_target a ev (c, item) = Inr (c', rest) \<Longrightarrow> channel c' = channel c"
  by (auto simp: stage_target_def with_custom_def set_custom_attr_def
        split: sum.splits option.splits prod.splits if_splits)

lemma stage_reference_channel:
  "stage_reference a ev (c, item) = Inr (c', rest) \<Longrightarrow> channel c' = channel c"
  by (auto simp: stage_reference_def with_custom_def set_custom_attr_def
        split: sum.splits option.splits prod.splits if_splits)

lemma stage_embedding_channel:
  "stage_embedding a ev (c, item) = Inr (c', rest) \<Longrightarrow> channel c' = channel c"
  by (auto simp: stage_embedding_def set_custom_attr_def
        split: sum.splits option.splits prod.splits if_splits path_or_paths.splits)

lemma copy_remaining_channel: "copy_remaining (c, rest) = Inr ct \<Longrightarrow> channel ct = channel c"
  by (auto simp: copy_remaining_def split: if_splits option.splits)

lemma map_int_nat: "\<forall>i\<in>set ns. 0 \<le> i \<Longrightarrow> map int (map nat ns) = ns"
  by (induction ns) auto

text \<open>
  Claim C4. A line with a list as input channel selector, whose primary recording was
  built. If the cut has one channel and the list has not exactly one element, the
  conversion fails with the assertion on the input selector (the spec's
  SchemaViolation). If the cut has more than one channel: a list of integers that are
  all channels of the cut narrows the cut to these channels, in the order named
  (line 106); a list naming an integer that is no channel of the cut makes the conversion
  fail with the assertion of \<^verbatim>\<open>with_channels\<close>; and the channels of a cut that is written
  are exactly the integers of the list.
\<close>

theorem input_selector_checked_or_applied:
  assumes ne: "input_key a \<noteq> INPUT_CHANNEL_SELECTOR"
    and sel: "dict_get item INPUT_CHANNEL_SELECTOR = Some (JList vs)"
    and prim: "stage_primary a ev item = Inr (c, rest)"
  shows "(cut_num_channels c = 1 \<and> length vs \<noteq> 1 \<longrightarrow>
            convert_item a ev item
              = Inl (AssertionError (SingleChannelSelector INPUT_CHANNEL_SELECTOR)) \<and>
            spec_error_kind (AssertionError (SingleChannelSelector INPUT_CHANNEL_SELECTOR))
              = Some SchemaViolation) \<and>
         (1 < cut_num_channels c \<longrightarrow>
            (\<forall>ns. as_ints vs = Some ns \<and> ns \<noteq> [] \<and>
                  (\<forall>i\<in>set ns. 0 \<le> i \<and> nat i \<in> set (channel c)) \<longrightarrow>
               stage_input_selector (c, rest)
                 = Inr (c\<lparr>channel := map nat ns\<rparr>, dict_del rest INPUT_CHANNEL_SELECTOR)) \<and>
            (\<forall>ns. as_ints vs = Some ns \<and>
                  \<not> (\<forall>i\<in>set ns. 0 \<le> i \<and> nat i \<in> set (channel c)) \<longrightarrow>
               convert_item a ev item = Inl (AssertionError ChannelsNotInRecording)) \<and>
            (\<forall>ct. convert_item a ev item = Inr ct \<longrightarrow>
               as_ints vs = Some (map int (channel ct))))"
proof -
  have k: "INPUT_CHANNEL_SELECTOR \<noteq> input_key a" "INPUT_CHANNEL_SELECTOR \<noteq> ''duration''"
    "INPUT_CHANNEL_SELECTOR \<noteq> ''offset''"
    using ne by (auto simp: selector_names)
  have here: "dict_get rest INPUT_CHANNEL_SELECTOR = Some (JList vs)"
    using stage_primary_get[OF k prim] sel by simp
  from stage_primary_channels[OF prim]
  have chans: "channel_ids (recording c) = channel c" by simp
  have single: "convert_item a ev item
                  = Inl (AssertionError (SingleChannelSelector INPUT_CHANNEL_SELECTOR))"
    if "cut_num_channels c = 1" "length vs \<noteq> 1"
    using that
    by (simp add: convert_item_def consume_fields_def consume_recordings_def and_then_def prim
          stage_input_selector_def pop_selector_def here assert_single_def)
  have applied: "stage_input_selector (c, rest)
                   = Inr (c\<lparr>channel := map nat ns\<rparr>, dict_del rest INPUT_CHANNEL_SELECTOR)"
    if "1 < cut_num_channels c" "as_ints vs = Some ns"
      "\<forall>i\<in>set ns. 0 \<le> i \<and> nat i \<in> set (channel c)" for ns
    using that
    by (simp add: stage_input_selector_def pop_selector_def here with_channels_def chans
          list_all_iff)
  have refused: "convert_item a ev item = Inl (AssertionError ChannelsNotInRecording)"
    if "1 < cut_num_channels c" "as_ints vs = Some ns"
      "\<not> (\<forall>i\<in>set ns. 0 \<le> i \<and> nat i \<in> set (channel c))" for ns
  proof -
    from that(3) have "\<not> list_all (\<lambda>i. 0 \<le> i \<and> nat i \<in> set (channel_ids (recording c))) ns"
      unfolding chans list_all_iff .
    then have wc: "with_channels c (JList vs) = Inl (AssertionError ChannelsNotInRecording)"
      by (simp add: with_channels_def that(2))
    from that(1) show ?thesis
      by (simp add: convert_item_def consume_fields_def consume_recordings_def and_then_def prim
            stage_input_selector_def pop_selector_def here wc)
  qed
  have final: "as_ints vs = Some (map int (channel ct))"
    if many: "1 < cut_num_channels c" and ok: "convert_item a ev item = Inr ct" for ct
  proof -
    from ok obtain c5 r5 where cf: "consume_fields a ev item = Inr (c5, r5)"
      and cp: "copy_remaining (c5, r5) = Inr ct"
      unfolding convert_item_Inr by blast
    from cf obtain c2 r2 c3 r3 c4 r4 where
      2: "stage_input_selector (c, rest) = Inr (c2, r2)" and
      3: "stage_target a ev (c2, r2) = Inr (c3, r3)" and
      4: "stage_reference a ev (c3, r3) = Inr (c4, r4)" and
      5: "stage_embedding a ev (c4, r4) = Inr (c5, r5)"
      unfolding consume_fields_def consume_recordings_def and_then_Inr prim by auto
    from 2 many obtain ns where ns: "as_ints vs = Some ns" "\<forall>i\<in>set ns. 0 \<le> i"
      "channel c2 = map nat ns"
      by (auto simp: stage_input_selector_def pop_selector_def here with_channels_def
            list_all_iff split: option.splits if_splits)
    from ns(2) have "map int (map nat ns) = ns" by (rule map_int_nat)
    with ns stage_target_channel[OF 3] stage_reference_channel[OF 4]
      stage_embedding_channel[OF 5] copy_remaining_channel[OF cp]
    show ?thesis by simp
  qed
  from single applied refused final show ?thesis by simp
qed

text \<open>
  A one-channel file with a selector of length two; a two-channel file narrowed to its
  second channel; the same file with the selector \<open>[5]\<close>.
\<close>

theorem input_selector_checked_or_applied_witness:
  "convert_item (parse_args ''/data/manifest.json'' ''/data/out.jsonl'') example_env
     [(''audio_filepath'', JStr ''/data/b.wav''), (''duration'', JFloat (1 / 4)),
      (''input_channel_selector'', JList [JInt 0, JInt 1])]
   = Inl (AssertionError (SingleChannelSelector INPUT_CHANNEL_SELECTOR)) \<and>
   convert_item (parse_args ''/data/manifest.json'' ''/data/out.jsonl'') example_env
     [(''audio_filepath'', JStr ''/data/a.wav''), (''duration'', JInt 1),
      (''input_channel_selector'', JList [JInt 1])]
   = Inr \<lparr>cut_id = ''id-i'', start = 0, cut_duration = 1, channel = [1],
       recording = \<lparr>rec_id = ''a'', sources = [\<lparr>src_type = ''file'', src_channels = [0, 1],
          source = ''/data/a.wav''\<rparr>], sampling_rate = 16000, num_samples = 32000,
          rec_duration = 2, channel_ids = [0, 1]\<rparr>,
       custom = None\<rparr> \<and>
   as_ints [JInt 1] = Some (map int [1]) \<and>
   convert_item (parse_args ''/data/manifest.json'' ''/data/out.jsonl'') example_env
     [(''audio_filepath'', JStr ''/data/a.wav''), (''duration'', JInt 1),
      (''input_channel_selector'', JList [JInt 5])]
   = Inl (AssertionError ChannelsNotInRecording)"
proof -
  let ?a = "parse_args ''/data/manifest.json'' ''/data/out.jsonl''"
  let ?one = "[(''audio_filepath'', JStr ''/data/b.wav''), (''duration'', JFloat (1 / 4)),
      (''input_channel_selector'', JList [JInt 0, JInt 1])]"
  let ?two = "[(''audio_filepath'', JStr ''/data/a.wav''), (''duration'', JInt 1),
      (''input_channel_selector'', JList [JInt 1])]"
  let ?five = "[(''audio_filepath'', JStr ''/data/a.wav''), (''duration'', JInt 1),
      (''input_channel_selector'', JList [JInt 5])]"
  let ?mono = "\<lparr>cut_id = ''id-i'', start = 0, cut_duration = 1 / 4, channel = [0],
       recording = \<lparr>rec_id = ''b'', sources = [\<lparr>src_type = ''file'', src_channels = [0],
          source = ''/data/b.wav''\<rparr>], sampling_rate = 16000, num_samples = 8000,
          rec_duration = 1 / 2, channel_ids = [0]\<rparr>,
       custom = None\<rparr>"
  let ?stereo = "\<lparr>cut_id = ''id-i'', start = 0, cut_duration = 1, channel = [0, 1],
       recording = \<lparr>rec_id = ''a'', sources = [\<lparr>src_type = ''file'', src_channels = [0, 1],
          source = ''/data/a.wav''\<rparr>], sampling_rate = 16000, num_samples = 32000,
          rec_duration = 2, channel_ids = [0, 1]\<rparr>,
       custom = None\<rparr>"
  have ne: "input_key ?a \<noteq> INPUT_CHANNEL_SELECTOR"
    by (simp add: parse_args_def selector_names)
  have sel1: "dict_get ?one INPUT_CHANNEL_SELECTOR = Some (JList [JInt 0, JInt 1])"
    by (simp add: dict_get_def selector_names)
  have prim1: "stage_primary ?a example_env ?one
                 = Inr (?mono, [(''input_channel_selector'', JList [JInt 0, JInt 1])])"
    using stage_primary_slice[of ?one ?a "JStr ''/data/b.wav''" example_env
        "Path ''/data/b.wav''" "recording ?mono" "JFloat (1 / 4)" "1 / 4" 0]
    by (simp add: run_primary parse_args_def example_env_def)
  have n1: "cut_num_channels ?mono = 1 \<and> length [JInt 0, JInt 1] \<noteq> 1"
    by (simp add: cut_num_channels_def)
  have sel2: "dict_get ?two INPUT_CHANNEL_SELECTOR = Some (JList [JInt 1])"
    by (simp add: dict_get_def selector_names)
  have prim2: "stage_primary ?a example_env ?two
                 = Inr (?stereo, [(''input_channel_selector'', JList [JInt 1])])"
    using stage_primary_slice[of ?two ?a "JStr ''/data/a.wav''" example_env
        "Path ''/data/a.wav''" "recording ?stereo" "JInt 1" 1 0]
    by (simp add: run_primary parse_args_def example_env_def)
  have n2: "1 < cut_num_channels ?stereo"
    by (simp add: cut_num_channels_def)
  have in2: "as_ints [JInt 1] = Some [1] \<and> [1 :: int] \<noteq> [] \<and>
             (\<forall>i\<in>set [1 :: int]. 0 \<le> i \<and> nat i \<in> set (channel ?stereo))"
    by simp
  have sel5: "dict_get ?five INPUT_CHANNEL_SELECTOR = Some (JList [JInt 5])"
    by (simp add: dict_get_def selector_names)
  have prim5: "stage_primary ?a example_env ?five
                 = Inr (?stereo, [(''input_channel_selector'', JList [JInt 5])])"
    using stage_primary_slice[of ?five ?a "JStr ''/data/a.wav''" example_env
        "Path ''/data/a.wav''" "recording ?stereo" "JInt 1" 1 0]
    by (simp add: run_primary parse_args_def example_env_def)
  have out5: "as_ints [JInt 5] = Some [5] \<and>
              \<not> (\<forall>i\<in>set [5 :: int]. 0 \<le> i \<and> nat i \<in> set (channel ?stereo))"
    by simp
  from input_selector_checked_or_applied[OF ne sel1 prim1] n1
  have fails: "convert_item ?a example_env ?one
                 = Inl (AssertionError (SingleChannelSelector INPUT_CHANNEL_SELECTOR))"
    by blast
  from input_selector_checked_or_applied[OF ne sel2 prim2] n2 in2
  have narrowed: "stage_input_selector (?stereo, [(''input_channel_selector'', JList [JInt 1])])
      = Inr (?stereo\<lparr>channel := map nat [1]\<rparr>,
             dict_del [(''input_channel_selector'', JList [JInt 1])] INPUT_CHANNEL_SELECTOR)"
    by blast
  have res2: "convert_item ?a example_env ?two = Inr (?stereo\<lparr>channel := [1]\<rparr>)"
    unfolding convert_item_def consume_fields_def consume_recordings_def prim2
      and_then_def sum.case narrowed
    by (simp add: stage_target_def stage_reference_def
          stage_embedding_def copy_remaining_def dict_in_def dict_get_def dict_del_def
          parse_args_def selector_names)
  from input_selector_checked_or_applied[OF ne sel2 prim2] n2 res2
  have named: "as_ints [JInt 1] = Some (map int (channel (?stereo\<lparr>channel := [1]\<rparr>)))"
    by blast
  from input_selector_checked_or_applied[OF ne sel5 prim5] n2 out5
  have refused: "convert_item ?a example_env ?five = Inl (AssertionError ChannelsNotInRecording)"
    by blast
  from fails res2 named refused show ?thesis by simp
qed


section \<open>The embedding and the plain line\<close>

lemma rev_drop_take:
  "xs = rev (dropWhile P (rev xs)) @ rev (takeWhile P (rev xs))"
proof -
  have "rev (takeWhile P (rev xs) @ dropWhile P (rev xs)) = xs"
    by (simp only: takeWhile_dropWhile_id rev_rev_ident)
  then show ?thesis by (simp only: rev_append)
qed

lemma os_path_split_snd:
  "snd (os_path_split p) = rev (takeWhile (\<lambda>c. c \<noteq> CHR ''/'') (rev p))"
  by (simp add: os_path_split_def Let_def)

lemma os_path_split_tail:
  "CHR ''/'' \<notin> set (snd (os_path_split p)) \<and>
   p = rev (dropWhile (\<lambda>c. c \<noteq> CHR ''/'') (rev p)) @ snd (os_path_split p) \<and>
   (rev (dropWhile (\<lambda>c. c \<noteq> CHR ''/'') (rev p)) = [] \<or>
    last (rev (dropWhile (\<lambda>c. c \<noteq> CHR ''/'') (rev p))) = CHR ''/'')"
proof (intro conjI)
  show "CHR ''/'' \<notin> set (snd (os_path_split p))"
    unfolding os_path_split_snd
    using set_takeWhileD[of "CHR ''/''" "\<lambda>c. c \<noteq> CHR ''/''" "rev p"] by auto
  show "p = rev (dropWhile (\<lambda>c. c \<noteq> CHR ''/'') (rev p)) @ snd (os_path_split p)"
    unfolding os_path_split_snd by (rule rev_drop_take)
  show "rev (dropWhile (\<lambda>c. c \<noteq> CHR ''/'') (rev p)) = [] \<or>
    last (rev (dropWhile (\<lambda>c. c \<noteq> CHR ''/'') (rev p))) = CHR ''/''"
  proof (cases "dropWhile (\<lambda>c. c \<noteq> CHR ''/'') (rev p)")
    case Nil
    then show ?thesis by simp
  next
    case (Cons x xs)
    then have "hd (dropWhile (\<lambda>c. c \<noteq> CHR ''/'') (rev p)) = CHR ''/''"
      using hd_dropWhile[of "\<lambda>c. c \<noteq> CHR ''/''" "rev p"] by simp
    then show ?thesis by (simp add: last_rev)
  qed
qed


lemma os_path_split_head:
  "\<exists>sl. rev (dropWhile (\<lambda>c. c \<noteq> CHR ''/'') (rev p)) = fst (os_path_split p) @ sl \<and>
        set sl \<subseteq> {CHR ''/''}"
proof -
  define h where "h = rev (dropWhile (\<lambda>c. c \<noteq> CHR ''/'') (rev p))"
  define s where "s = rev (takeWhile (\<lambda>c. c = CHR ''/'') (rev h))"
  define k where "k = rev (dropWhile (\<lambda>c. c = CHR ''/'') (rev h))"
  have split: "h = k @ s"
    unfolding k_def s_def by (rule rev_drop_take)
  have sl: "set s \<subseteq> {CHR ''/''}"
    unfolding s_def using set_takeWhileD[of _ "\<lambda>c. c = CHR ''/''" "rev h"] by auto
  have f: "fst (os_path_split p) = (if h \<noteq> [] \<and> \<not> list_all (\<lambda>c. c = CHR ''/'') h then k else h)"
    unfolding h_def k_def by (simp add: os_path_split_def Let_def)
  show ?thesis
  proof (cases "h \<noteq> [] \<and> \<not> list_all (\<lambda>c. c = CHR ''/'') h")
    case True
    then have "fst (os_path_split p) = k"
      unfolding f by (rule if_P)
    with split sl have "h = fst (os_path_split p) @ s \<and> set s \<subseteq> {CHR ''/''}"
      by simp
    then show ?thesis unfolding h_def by (rule exI)
  next
    case False
    then have "fst (os_path_split p) = h"
      unfolding f by (rule if_not_P)
    then have "h = fst (os_path_split p) @ [] \<and> set [] \<subseteq> {CHR ''/''}"
      by simp
    then show ?thesis unfolding h_def by (rule exI)
  qed
qed

lemma consume_recordings_embedding_key:
  assumes dk: "distinct_keys a" and ok: "consume_recordings a ev item = Inr (c, rest)"
  shows "dict_get rest (embedding_key a) = dict_get item (embedding_key a)"
proof -
  from consume_recordings_rest[OF ok] obtain i2 i3 where
    i2: "i2 = dict_del (dict_del (dict_del (dict_del item (input_key a)) ''duration'') ''offset'')
            INPUT_CHANNEL_SELECTOR" and
    i3: "i3 = (if target_key a \<in> keys i2
           then dict_del (dict_del i2 (target_key a)) TARGET_CHANNEL_SELECTOR else i2)" and
    rest: "rest = (if reference_key a \<in> keys i3
           then dict_del (dict_del i3 (reference_key a)) REFERENCE_CHANNEL_SELECTOR else i3)"
    by blast
  from dk have ne: "embedding_key a \<noteq> input_key a" "embedding_key a \<noteq> ''duration''"
    "embedding_key a \<noteq> ''offset''" "embedding_key a \<noteq> INPUT_CHANNEL_SELECTOR"
    "embedding_key a \<noteq> target_key a" "embedding_key a \<noteq> TARGET_CHANNEL_SELECTOR"
    "embedding_key a \<noteq> reference_key a" "embedding_key a \<noteq> REFERENCE_CHANNEL_SELECTOR"
    unfolding distinct_keys_def by auto
  have "dict_get rest (embedding_key a) = dict_get i3 (embedding_key a)"
    using ne by (simp add: rest dict_get_dict_del)
  also have "\<dots> = dict_get i2 (embedding_key a)"
    using ne by (simp add: i3 dict_get_dict_del)
  also have "\<dots> = dict_get item (embedding_key a)"
    using ne by (simp add: i2 dict_get_dict_del)
  finally show ?thesis .
qed

lemma stage_embedding_path:
  assumes "dict_get item (embedding_key a) = Some (JStr s)"
  shows "stage_embedding a ev (c, item) =
     (case create_array ev (resolve ev s (input a)) of
        Inl e \<Rightarrow> Inl e
      | Inr arr \<Rightarrow>
          Inr (set_custom_attr c ''embedding_vector'' (CArray arr),
               dict_del item (embedding_key a)))"
  using assms
  by (simp add: stage_embedding_def dict_in_def dict_pop_def get_full_path_def)

lemma copy_remaining_with_map:
  "custom c = Some d \<Longrightarrow> copy_remaining (c, item) = Inr (c\<lparr>custom := Some (merge_item d item)\<rparr>)"
  by (cases "item = []") (simp_all add: copy_remaining_def merge_item_def)

text \<open>
  Claim C5. \<^verbatim>\<open>create_array\<close> on a path that does not end in \<^verbatim>\<open>.npy\<close> fails with its
  assertion (the spec's UnsupportedFormat). On a path that ends in \<^verbatim>\<open>.npy\<close> and whose array
  has shape \<open>shp\<close> it gives the array reference with that shape, with the base name of
  the path as storage key and its directory as storage path, and nothing else: the key
  has no slash, the path is a directory part (empty or ending in a slash) followed by
  the key, and the storage path is that directory part without trailing slashes (or
  all of it). For a line whose embedding field is a string, once the recordings of the
  line are built the conversion is that failure, or the cut with this reference stored
  under \<open>embedding_vector\<close> and what is left of the line copied.
\<close>

theorem embedding_reference:
  shows "(\<not> endswith path ''.npy'' \<longrightarrow>
            create_array ev path = Inl (AssertionError OnlyNumpySupported) \<and>
            spec_error_kind (AssertionError OnlyNumpySupported) = Some UnsupportedFormat) \<and>
         (endswith path ''.npy'' \<and> np_load_shape ev path = Some shp \<longrightarrow>
            create_array ev path =
              Inr \<lparr>storage_type = ''numpy_files'',
                   storage_path = fst (os_path_split path),
                   storage_key = snd (os_path_split path),
                   shape = shp\<rparr> \<and>
            CHR ''/'' \<notin> set (snd (os_path_split path)) \<and>
            (\<exists>d sl. path = d @ snd (os_path_split path) \<and>
                     (d = [] \<or> last d = CHR ''/'') \<and>
                     d = fst (os_path_split path) @ sl \<and> set sl \<subseteq> {CHR ''/''})) \<and>
         (distinct_keys a \<and> dict_get item (embedding_key a) = Some (JStr s) \<and>
          resolve ev s (input a) = path \<and> consume_recordings a ev item = Inr (c, rest) \<longrightarrow>
            convert_item a ev item =
              (case create_array ev path of
                 Inl e \<Rightarrow> Inl e
               | Inr arr \<Rightarrow>
                   Inr (c\<lparr>custom := Some (merge_item
                          (AList.update ''embedding_vector'' (CArray arr) (custom_fields c))
                          (dict_del rest (embedding_key a)))\<rparr>)))"
proof (intro conjI impI)
  assume "\<not> endswith path ''.npy''"
  then show "create_array ev path = Inl (AssertionError OnlyNumpySupported)"
    by (simp add: create_array_def)
  show "spec_error_kind (AssertionError OnlyNumpySupported) = Some UnsupportedFormat"
    by simp
next
  assume h: "endswith path ''.npy'' \<and> np_load_shape ev path = Some shp"
  then show "create_array ev path =
              Inr \<lparr>storage_type = ''numpy_files'',
                   storage_path = fst (os_path_split path),
                   storage_key = snd (os_path_split path),
                   shape = shp\<rparr>"
    by (simp add: create_array_def split: prod.splits)
  show "CHR ''/'' \<notin> set (snd (os_path_split path))"
    using os_path_split_tail[of path] by (rule conjunct1)
  note tl = os_path_split_tail[of path, THEN conjunct2]
  from os_path_split_head[of path] obtain sl where
    sl: "rev (dropWhile (\<lambda>c. c \<noteq> CHR ''/'') (rev path)) = fst (os_path_split path) @ sl \<and>
         set sl \<subseteq> {CHR ''/''}" ..
  from tl sl have "path = rev (dropWhile (\<lambda>c. c \<noteq> CHR ''/'') (rev path)) @ snd (os_path_split path) \<and>
     (rev (dropWhile (\<lambda>c. c \<noteq> CHR ''/'') (rev path)) = [] \<or>
      last (rev (dropWhile (\<lambda>c. c \<noteq> CHR ''/'') (rev path))) = CHR ''/'') \<and>
     rev (dropWhile (\<lambda>c. c \<noteq> CHR ''/'') (rev path)) = fst (os_path_split path) @ sl \<and>
     set sl \<subseteq> {CHR ''/''}"
    by (simp only: simp_thms)
  then show "\<exists>d sl. path = d @ snd (os_path_split path) \<and>
                     (d = [] \<or> last d = CHR ''/'') \<and>
                     d = fst (os_path_split path) @ sl \<and> set sl \<subseteq> {CHR ''/''}"
    by (intro exI)
next
  assume h: "distinct_keys a \<and> dict_get item (embedding_key a) = Some (JStr s) \<and>
          resolve ev s (input a) = path \<and> consume_recordings a ev item = Inr (c, rest)"
  then have here: "dict_get rest (embedding_key a) = Some (JStr s)"
    using consume_recordings_embedding_key[of a ev item c rest] by simp
  from h have p: "resolve ev s (input a) = path" by simp
  from h have cr: "consume_recordings a ev item = Inr (c, rest)" by simp
  have cp: "copy_remaining (set_custom_attr c ''embedding_vector'' (CArray arr),
                           dict_del rest (embedding_key a))
            = Inr (c\<lparr>custom := Some (merge_item
                     (AList.update ''embedding_vector'' (CArray arr) (custom_fields c))
                     (dict_del rest (embedding_key a)))\<rparr>)" for arr
    using copy_remaining_with_map[of "set_custom_attr c ''embedding_vector'' (CArray arr)"
        "AList.update ''embedding_vector'' (CArray arr) (custom_fields c)"
        "dict_del rest (embedding_key a)"]
    by (simp add: set_custom_attr_def)
  show "convert_item a ev item =
              (case create_array ev path of
                 Inl e \<Rightarrow> Inl e
               | Inr arr \<Rightarrow>
                   Inr (c\<lparr>custom := Some (merge_item
                          (AList.update ''embedding_vector'' (CArray arr) (custom_fields c))
                          (dict_del rest (embedding_key a)))\<rparr>))"
    by (simp add: convert_item_def consume_fields_def cr and_then_def
          stage_embedding_path[OF here] p cp split: sum.splits)
qed

text \<open>
  An array of shape \<open>(3, 4)\<close> at \<^verbatim>\<open>/data/emb/e.npy\<close>, given relative to the manifest.
\<close>

theorem embedding_reference_witness:
  "\<not> endswith ''/data/emb/e.txt'' ''.npy'' \<and>
   create_array example_env ''/data/emb/e.txt'' = Inl (AssertionError OnlyNumpySupported) \<and>
   endswith ''/data/emb/e.npy'' ''.npy'' \<and>
   np_load_shape example_env ''/data/emb/e.npy'' = Some [3, 4] \<and>
   create_array example_env ''/data/emb/e.npy'' =
     Inr \<lparr>storage_type = ''numpy_files'', storage_path = ''/data/emb'',
          storage_key = ''e.npy'', shape = [3, 4]\<rparr> \<and>
   resolve example_env ''emb/e.npy''
     (input (parse_args ''/data/manifest.json'' ''/data/out.jsonl'')) = ''/data/emb/e.npy'' \<and>
   convert_item (parse_args ''/data/manifest.json'' ''/data/out.jsonl'') example_env
     [(''audio_filepath'', JStr ''/data/b.wav''), (''duration'', JFloat (1 / 4)),
      (''embedding_filepath'', JStr ''emb/e.npy'')]
   = Inr \<lparr>cut_id = ''id-i'', start = 0, cut_duration = 1 / 4, channel = [0],
       recording = \<lparr>rec_id = ''b'', sources = [\<lparr>src_type = ''file'', src_channels = [0],
          source = ''/data/b.wav''\<rparr>], sampling_rate = 16000, num_samples = 8000,
          rec_duration = 1 / 2, channel_ids = [0]\<rparr>,
       custom = Some [(''embedding_vector'', CArray \<lparr>storage_type = ''numpy_files'',
          storage_path = ''/data/emb'', storage_key = ''e.npy'', shape = [3, 4]\<rparr>)]\<rparr>"
proof -
  let ?a = "parse_args ''/data/manifest.json'' ''/data/out.jsonl''"
  let ?item = "[(''audio_filepath'', JStr ''/data/b.wav''), (''duration'', JFloat (1 / 4)),
      (''embedding_filepath'', JStr ''emb/e.npy'')]"
  let ?bare = "\<lparr>cut_id = ''id-i'', start = 0, cut_duration = 1 / 4, channel = [0],
       recording = \<lparr>rec_id = ''b'', sources = [\<lparr>src_type = ''file'', src_channels = [0],
          source = ''/data/b.wav''\<rparr>], sampling_rate = 16000, num_samples = 8000,
          rec_duration = 1 / 2, channel_ids = [0]\<rparr>,
       custom = None\<rparr>"
  have bad: "\<not> endswith ''/data/emb/e.txt'' ''.npy''"
    by (simp add: endswith_def)
  have good: "endswith ''/data/emb/e.npy'' ''.npy'' \<and>
              np_load_shape example_env ''/data/emb/e.npy'' = Some [3, 4]"
    by (simp add: endswith_def example_env_def)
  have sp: "os_path_split ''/data/emb/e.npy'' = (''/data/emb'', ''e.npy'')"
    by (simp add: os_path_split_def)
  have dk: "distinct_keys ?a"
    by (rule distinct_keys_parse_args)
  have emb: "dict_get ?item (embedding_key ?a) = Some (JStr ''emb/e.npy'')"
    by (simp add: dict_get_def parse_args_def)
  have res: "resolve example_env ''emb/e.npy'' (input ?a) = ''/data/emb/e.npy''"
    by (simp add: example_env_def parse_args_def os_path_split_def)
  have prim: "stage_primary ?a example_env ?item
                = Inr (?bare, [(''embedding_filepath'', JStr ''emb/e.npy'')])"
    using stage_primary_slice[of ?item ?a "JStr ''/data/b.wav''" example_env
        "Path ''/data/b.wav''" "recording ?bare" "JFloat (1 / 4)" "1 / 4" 0]
    by (simp add: run_primary parse_args_def example_env_def)
  have cr: "consume_recordings ?a example_env ?item
              = Inr (?bare, [(''embedding_filepath'', JStr ''emb/e.npy'')])"
    unfolding consume_recordings_def prim
    by (simp add: run_stages parse_args_def example_env_def)
  have del: "dict_del [(''embedding_filepath'', JStr ''emb/e.npy'')] (embedding_key ?a) = []"
    by (simp add: dict_del_def parse_args_def)
  note inst = embedding_reference[where ev = example_env and a = ?a and item = ?item
      and s = "''emb/e.npy''" and c = ?bare and shp = "[3, 4]"
      and rest = "[(''embedding_filepath'', JStr ''emb/e.npy'')]"]
  from inst[of "''/data/emb/e.txt''"] bad
  have 1: "create_array example_env ''/data/emb/e.txt'' = Inl (AssertionError OnlyNumpySupported)"
    by blast
  from inst[of "''/data/emb/e.npy''"] good
  have 2: "create_array example_env ''/data/emb/e.npy'' =
     Inr \<lparr>storage_type = ''numpy_files'', storage_path = ''/data/emb'',
          storage_key = ''e.npy'', shape = [3, 4]\<rparr>"
    unfolding sp by simp
  from inst[of "''/data/emb/e.npy''"] dk emb res cr
  have 3: "convert_item ?a example_env ?item =
     (case create_array example_env ''/data/emb/e.npy'' of
        Inl e \<Rightarrow> Inl e
      | Inr arr \<Rightarrow>
          Inr (?bare\<lparr>custom := Some (merge_item
                 (AList.update ''embedding_vector'' (CArray arr) (custom_fields ?bare)) [])\<rparr>))"
    unfolding del by blast
  from 1 2 3 bad good res show ?thesis
    by (simp add: merge_item_def custom_fields_def)
qed


lemma convert_item_plain:
  assumes "stage_primary a ev item = Inr (c, [])"
  shows "convert_item a ev item = Inr c"
  using assms
  by (simp add: convert_item_def consume_fields_def consume_recordings_def and_then_def
        stage_input_selector_def pop_selector_def stage_target_def stage_reference_def
        stage_embedding_def copy_remaining_def dict_in_def dict_get_def dict_del_def)


text \<open>
  Two more lines on the same file. A third of a second is not a whole number of
  samples at 16 kHz: the cut lasts 5333 samples. A duration of zero is refused.
\<close>

lemma plain_record_duration_rounded:
  "convert_item (parse_args ''/data/manifest.json'' ''/data/out.jsonl'') example_env
     [(''audio_filepath'', JStr ''/data/b.wav''), (''duration'', JFloat (1 / 3))]
   = Inr \<lparr>cut_id = ''id-i'', start = 0, cut_duration = 5333 / 16000, channel = [0],
       recording = \<lparr>rec_id = ''b'', sources = [\<lparr>src_type = ''file'', src_channels = [0],
          source = ''/data/b.wav''\<rparr>], sampling_rate = 16000, num_samples = 8000,
          rec_duration = 1 / 2, channel_ids = [0]\<rparr>,
       custom = None\<rparr>"
proof -
  let ?a = "parse_args ''/data/manifest.json'' ''/data/out.jsonl''"
  let ?item = "[(''audio_filepath'', JStr ''/data/b.wav''), (''duration'', JFloat (1 / 3))]"
  let ?bare = "\<lparr>cut_id = ''id-i'', start = 0, cut_duration = 5333 / 16000, channel = [0],
       recording = \<lparr>rec_id = ''b'', sources = [\<lparr>src_type = ''file'', src_channels = [0],
          source = ''/data/b.wav''\<rparr>], sampling_rate = 16000, num_samples = 8000,
          rec_duration = 1 / 2, channel_ids = [0]\<rparr>,
       custom = None\<rparr>"
  have fl: "\<lfloor>(32003 :: rat) / 6\<rfloor> = 5333"
    by (rule floor_unique) simp_all
  have third: "compute_num_samples (1 / 3) 16000 = 5333"
    using fl by (simp add: compute_num_samples_def round_half_up_def)
  have prim: "stage_primary ?a example_env ?item = Inr (?bare, [])"
    using stage_primary_slice[of ?item ?a "JStr ''/data/b.wav''" example_env
        "Path ''/data/b.wav''" "recording ?bare" "JFloat (1 / 3)" "1 / 3" 0]
    unfolding recording.simps cut.simps third
    by (simp add: run_primary parse_args_def example_env_def)
  show ?thesis
    by (rule convert_item_plain[OF prim])
qed

lemma plain_record_duration_zero:
  "convert_item (parse_args ''/data/manifest.json'' ''/data/out.jsonl'') example_env
     [(''audio_filepath'', JStr ''/data/b.wav''), (''duration'', JInt 0)]
   = Inl (AssertionError NonPositiveDuration)"
proof -
  let ?a = "parse_args ''/data/manifest.json'' ''/data/out.jsonl''"
  let ?item = "[(''audio_filepath'', JStr ''/data/b.wav''), (''duration'', JInt 0)]"
  have "stage_primary ?a example_env ?item = Inl (AssertionError NonPositiveDuration)"
    by (simp add: stage_primary_def dict_pop_def truncate_def and_then_def add_durations_def
          run_primary parse_args_def example_env_def)
  then show ?thesis
    by (simp add: convert_item_def consume_fields_def consume_recordings_def and_then_def)
qed



end
